theory Spec2Isabelle
  imports Complex_Main
begin

section \<open>JavaScript numbers\<close>

text \<open>
  The stock-data module \<^verbatim>\<open>src/lib/stock-api.ts\<close> computes with JavaScript numbers.
  They are modelled as the real numbers extended by the three special values that the
  source can produce by dividing by zero or by reading outside an array: both infinities
  and NaN. Arithmetic on finite values is exact (rounding and overflow of doubles are left
  out, and negative zero is identified with zero); arithmetic on the special values follows
  the language: NaN is absorbing, every comparison with NaN is false, \<open>x / 0\<close> is an
  infinity of the sign of \<open>x\<close> and \<open>0 / 0\<close> is NaN. The statements below are therefore
  about the formulas the functions compute. Whether a result of the program stays strictly
  below a bound, or whether a quotient of the program is zero, depends on the rounding and
  the underflow of doubles, and no such statement is made here.
\<close>

datatype number = Num real | PosInf | NegInf | NaN

instantiation number :: "{plus, minus, uminus, times, inverse, ord}"
begin

fun uminus_number :: "number \<Rightarrow> number" where
  "uminus_number (Num a) = Num (- a)"
| "uminus_number PosInf = NegInf"
| "uminus_number NegInf = PosInf"
| "uminus_number NaN = NaN"

fun plus_number :: "number \<Rightarrow> number \<Rightarrow> number" where
  "plus_number (Num a) (Num b) = Num (a + b)"
| "plus_number NaN y = NaN"
| "plus_number x NaN = NaN"
| "plus_number PosInf NegInf = NaN"
| "plus_number NegInf PosInf = NaN"
| "plus_number PosInf y = PosInf"
| "plus_number x PosInf = PosInf"
| "plus_number NegInf y = NegInf"
| "plus_number x NegInf = NegInf"

definition minus_number :: "number \<Rightarrow> number \<Rightarrow> number" where
  "minus_number x y = x + (- y)"

fun times_number :: "number \<Rightarrow> number \<Rightarrow> number" where
  "times_number (Num a) (Num b) = Num (a * b)"
| "times_number NaN y = NaN"
| "times_number x NaN = NaN"
| "times_number PosInf (Num b) = (if 0 < b then PosInf else if b < 0 then NegInf else NaN)"
| "times_number NegInf (Num b) = (if 0 < b then NegInf else if b < 0 then PosInf else NaN)"
| "times_number (Num a) PosInf = (if 0 < a then PosInf else if a < 0 then NegInf else NaN)"
| "times_number (Num a) NegInf = (if 0 < a then NegInf else if a < 0 then PosInf else NaN)"
| "times_number PosInf PosInf = PosInf"
| "times_number PosInf NegInf = NegInf"
| "times_number NegInf PosInf = NegInf"
| "times_number NegInf NegInf = PosInf"

fun divide_number :: "number \<Rightarrow> number \<Rightarrow> number" where
  "divide_number (Num a) (Num b) =
     (if b \<noteq> 0 then Num (a / b)
      else if 0 < a then PosInf else if a < 0 then NegInf else NaN)"
| "divide_number NaN y = NaN"
| "divide_number x NaN = NaN"
| "divide_number (Num a) PosInf = Num 0"
| "divide_number (Num a) NegInf = Num 0"
| "divide_number PosInf (Num b) = (if 0 \<le> b then PosInf else NegInf)"
| "divide_number NegInf (Num b) = (if 0 \<le> b then NegInf else PosInf)"
| "divide_number x y = NaN"

definition inverse_number :: "number \<Rightarrow> number" where
  "inverse_number x = Num 1 div x"

fun less_number :: "number \<Rightarrow> number \<Rightarrow> bool" where
  "less_number (Num a) (Num b) = (a < b)"
| "less_number NaN y = False"
| "less_number x NaN = False"
| "less_number x NegInf = False"
| "less_number PosInf y = False"
| "less_number NegInf y = True"
| "less_number x PosInf = True"

fun less_eq_number :: "number \<Rightarrow> number \<Rightarrow> bool" where
  "less_eq_number (Num a) (Num b) = (a \<le> b)"
| "less_eq_number NaN y = False"
| "less_eq_number x NaN = False"
| "less_eq_number NegInf y = True"
| "less_eq_number x PosInf = True"
| "less_eq_number x y = False"

instance ..

end

text \<open>\<^verbatim>\<open>Math.sqrt\<close>, \<^verbatim>\<open>Math.log\<close>, \<^verbatim>\<open>Math.pow(x, 2)\<close>, \<^verbatim>\<open>Math.round\<close> and \<^verbatim>\<open>Math.floor\<close>.\<close>

fun Math_sqrt :: "number \<Rightarrow> number" where
  "Math_sqrt (Num a) = (if 0 \<le> a then Num (sqrt a) else NaN)"
| "Math_sqrt PosInf = PosInf"
| "Math_sqrt x = NaN"

fun Math_log :: "number \<Rightarrow> number" where
  "Math_log (Num a) = (if 0 < a then Num (ln a) else if a = 0 then NegInf else NaN)"
| "Math_log PosInf = PosInf"
| "Math_log x = NaN"

definition Math_pow2 :: "number \<Rightarrow> number" where
  "Math_pow2 x = x * x"

fun Math_round :: "number \<Rightarrow> number" where
  "Math_round (Num a) = Num (of_int \<lfloor>a + 1 / 2\<rfloor>)"
| "Math_round x = x"

fun Math_floor :: "number \<Rightarrow> number" where
  "Math_floor (Num a) = Num (of_int \<lfloor>a\<rfloor>)"
| "Math_floor x = x"

text \<open>
  An array of prices, volumes and so on is a list of finite numbers. A read at an index
  yields \<open>None\<close> (the language's \<^verbatim>\<open>undefined\<close>) outside the array; in arithmetic
  \<^verbatim>\<open>undefined\<close> becomes NaN, and \<^verbatim>\<open>x || 0\<close> replaces \<^verbatim>\<open>undefined\<close>, zero and NaN by zero.
\<close>

definition at_index :: "real list \<Rightarrow> int \<Rightarrow> number option" where
  "at_index xs i = (if 0 \<le> i \<and> i < int (length xs) then Some (Num (xs ! nat i)) else None)"

fun to_number :: "number option \<Rightarrow> number" where
  "to_number None = NaN"
| "to_number (Some x) = x"

fun or_zero :: "number option \<Rightarrow> number" where
  "or_zero None = Num 0"
| "or_zero (Some NaN) = Num 0"
| "or_zero (Some (Num a)) = Num a"
| "or_zero (Some x) = x"

text \<open>\<^verbatim>\<open>xs.reduce((sum, x) => sum + x, 0)\<close>: a left fold from zero.\<close>

definition reduce_sum :: "number list \<Rightarrow> number" where
  "reduce_sum xs = foldl (\<lambda>sum x. sum + x) (Num 0) xs"

section \<open>Technical indicators\<close>

text \<open>
  A period is a number of samples, a natural number. Every \<^verbatim>\<open>for\<close> loop of the source is
  a recursive function on its counter that carries the variables the loop assigns.
\<close>

subsection \<open>calculateRSI\<close>

function calculateRSI_loop :: "real list \<Rightarrow> nat \<Rightarrow> nat \<Rightarrow> number \<Rightarrow> number \<Rightarrow> number \<times> number" where
  "calculateRSI_loop prices period i gains losses =
     (if i \<le> period then
        (let change = to_number (at_index prices (int (length prices) - int i))
                      - to_number (at_index prices (int (length prices) - int i - 1))
         in if Num 0 < change
            then calculateRSI_loop prices period (Suc i) (gains + change) losses
            else calculateRSI_loop prices period (Suc i) gains (losses - change))
      else (gains, losses))"
  by pat_completeness auto
termination
  by (relation "measure (\<lambda>(prices, period, i, gains, losses). Suc period - i)") auto

declare calculateRSI_loop.simps [simp del]

definition rsi_avgGain :: "real list \<Rightarrow> nat \<Rightarrow> number" where
  "rsi_avgGain prices period =
     fst (calculateRSI_loop prices period 1 (Num 0) (Num 0)) / Num (real period)"

definition rsi_avgLoss :: "real list \<Rightarrow> nat \<Rightarrow> number" where
  "rsi_avgLoss prices period =
     snd (calculateRSI_loop prices period 1 (Num 0) (Num 0)) / Num (real period)"

definition rsi_rs :: "real list \<Rightarrow> nat \<Rightarrow> number" where
  "rsi_rs prices period = rsi_avgGain prices period / rsi_avgLoss prices period"

definition calculateRSI :: "real list \<Rightarrow> nat \<Rightarrow> number" where
  "calculateRSI prices period =
     (if int (length prices) < int period + 1 then Num 50
      else Num 100 - Num 100 / (Num 1 + rsi_rs prices period))"

text \<open>The default argument \<^verbatim>\<open>period = 14\<close>.\<close>

definition calculateRSI_default :: "real list \<Rightarrow> number" where
  "calculateRSI_default prices = calculateRSI prices 14"

text \<open>
  The reading of the formula in the specification: the changes between consecutive prices
  of the last \<open>period + 1\<close> prices, the sum of the positive ones and the sum of the
  absolute values of the negative ones.
\<close>

definition recent_changes :: "real list \<Rightarrow> nat \<Rightarrow> real list" where
  "recent_changes prices period =
     (let w = drop (length prices - Suc period) prices in map2 (\<lambda>a b. b - a) w (tl w))"

definition rsi_spec_RS :: "real list \<Rightarrow> nat \<Rightarrow> number" where
  "rsi_spec_RS prices period =
     (let cs = recent_changes prices period
      in Num (sum_list (filter (\<lambda>c. 0 < c) cs)) / Num (sum_list (map abs (filter (\<lambda>c. c < 0) cs))))"

text \<open>The change the loop of \<^verbatim>\<open>calculateRSI\<close> computes in its round \<open>k\<close>.\<close>

definition rsi_change :: "real list \<Rightarrow> nat \<Rightarrow> real" where
  "rsi_change prices k = prices ! (length prices - k) - prices ! (length prices - k - 1)"

subsection \<open>calculateEMA\<close>

function calculateEMA_loop :: "real list \<Rightarrow> number \<Rightarrow> nat \<Rightarrow> number \<Rightarrow> number" where
  "calculateEMA_loop prices multiplier i ema =
     (if i < length prices
      then calculateEMA_loop prices multiplier (Suc i)
             (to_number (at_index prices (int i)) * multiplier + ema * (Num 1 - multiplier))
      else ema)"
  by pat_completeness auto
termination
  by (relation "measure (\<lambda>(prices, multiplier, i, ema). length prices - i)") auto

declare calculateEMA_loop.simps [simp del]

text \<open>\<^verbatim>\<open>prices.slice(0, period)\<close> is \<open>take period prices\<close> for a count \<open>period\<close>.\<close>

definition calculateEMA :: "real list \<Rightarrow> nat \<Rightarrow> number" where
  "calculateEMA prices period =
     (if length prices < period then or_zero (at_index prices (int (length prices) - 1))
      else (let multiplier = Num 2 / (Num (real period) + Num 1);
                ema = reduce_sum (map Num (take period prices)) / Num (real period)
            in calculateEMA_loop prices multiplier period ema))"

text \<open>
  The specification's wording: seed with the arithmetic mean of the first \<open>period\<close>
  prices, then fold every later price \<open>p\<close> as \<open>p * k + ema * (1 - k)\<close>, \<open>k = 2 / (period + 1)\<close>.
\<close>

definition ema_spec :: "real list \<Rightarrow> nat \<Rightarrow> number" where
  "ema_spec prices period =
     (let k = Num (2 / (real period + 1));
          seed = Num (sum_list (take period prices)) / Num (real period)
      in foldl (\<lambda>ema p. Num p * k + ema * (Num 1 - k)) seed (drop period prices))"

subsection \<open>calculateVWAP\<close>

function calculateVWAP_loop ::
  "real list \<Rightarrow> real list \<Rightarrow> real list \<Rightarrow> real list \<Rightarrow> nat \<Rightarrow> number \<Rightarrow> number \<Rightarrow> number \<times> number" where
  "calculateVWAP_loop closes volumes highs lows i totalVolume totalVolumePrice =
     (if i < length closes then
        (let typicalPrice = (to_number (at_index highs (int i)) + to_number (at_index lows (int i))
                             + to_number (at_index closes (int i))) / Num 3;
             volume = or_zero (at_index volumes (int i))
         in calculateVWAP_loop closes volumes highs lows (Suc i)
              (totalVolume + volume) (totalVolumePrice + typicalPrice * volume))
      else (totalVolume, totalVolumePrice))"
  by pat_completeness auto
termination
  by (relation "measure (\<lambda>(closes, volumes, highs, lows, i, tv, tvp). length closes - i)") auto

declare calculateVWAP_loop.simps [simp del]

definition calculateVWAP :: "real list \<Rightarrow> real list \<Rightarrow> real list \<Rightarrow> real list \<Rightarrow> number" where
  "calculateVWAP closes volumes highs lows =
     (if length closes = 0 then Num 0
      else (case calculateVWAP_loop closes volumes highs lows 0 (Num 0) (Num 0) of
              (totalVolume, totalVolumePrice) \<Rightarrow>
                if Num 0 < totalVolume then totalVolumePrice / totalVolume
                else to_number (at_index closes (int (length closes) - 1))))"

subsection \<open>calculateVolatility\<close>

function calculateVolatility_loop :: "real list \<Rightarrow> nat \<Rightarrow> number list \<Rightarrow> number list" where
  "calculateVolatility_loop prices i returns =
     (if i < length prices
      then calculateVolatility_loop prices (Suc i)
             (returns @ [Math_log (to_number (at_index prices (int i))
                                   / to_number (at_index prices (int i - 1)))])
      else returns)"
  by pat_completeness auto
termination
  by (relation "measure (\<lambda>(prices, i, returns). length prices - i)") auto

declare calculateVolatility_loop.simps [simp del]

definition calculateVolatility :: "real list \<Rightarrow> number \<Rightarrow> number" where
  "calculateVolatility prices days =
     (if length prices < 2 then Num 0
      else (let returns = calculateVolatility_loop prices 1 [];
                mean = reduce_sum returns / Num (real (length returns));
                variance = foldl (\<lambda>sum ret. sum + Math_pow2 (ret - mean)) (Num 0) returns
                           / Num (real (length returns));
                dailyVol = Math_sqrt variance;
                annualizedVol = dailyVol * Math_sqrt (Num 252) * Num 100
            in annualizedVol))"

text \<open>
  The specification's wording: the log returns \<open>log (p[i] / p[i - 1])\<close> and their
  population standard deviation (the root of the mean squared deviation from the mean).
\<close>

definition log_returns :: "real list \<Rightarrow> number list" where
  "log_returns prices = map2 (\<lambda>p q. Math_log (Num q / Num p)) prices (tl prices)"

definition number_sum :: "number list \<Rightarrow> number" where
  "number_sum xs = foldr (\<lambda>x s. x + s) xs (Num 0)"

definition population_stddev :: "number list \<Rightarrow> number" where
  "population_stddev xs =
     (let n = Num (real (length xs));
          mean = number_sum xs / n
      in Math_sqrt (number_sum (map (\<lambda>x. (x - mean) * (x - mean)) xs) / n))"

text \<open>
  The same two notions on real numbers, for prices that are all positive: there the log
  returns are finite and the arithmetic is that of the reals.
\<close>

definition real_log_returns :: "real list \<Rightarrow> real list" where
  "real_log_returns prices = map2 (\<lambda>p q. ln (q / p)) prices (tl prices)"

definition real_stddev :: "real list \<Rightarrow> real" where
  "real_stddev xs =
     sqrt ((\<Sum>x\<leftarrow>xs. (x - sum_list xs / real (length xs))\<^sup>2) / real (length xs))"

section \<open>Data model\<close>

text \<open>
  The interfaces of the module, one record each. Every \<^verbatim>\<open>number\<close> field is a
  \<^typ>\<open>number\<close>; an optional field is an \<open>option\<close>. The fields \<^verbatim>\<open>open\<close> of
  \<^verbatim>\<open>StockData\<close>, \<^verbatim>\<open>last\<close> of \<^verbatim>\<open>OptionContract\<close> and \<^verbatim>\<open>chains\<close> of \<^verbatim>\<open>OptionsData\<close>
  carry a prime.
\<close>

record OptionContract =
  strike :: number
  bid :: number
  ask :: number
  last' :: number
  volume :: number
  openInterest :: number
  impliedVolatility :: number
  delta :: number
  gamma :: number
  theta :: number
  vega :: number
  rho :: number

record OptionsChain =
  expiration :: string
  calls :: "OptionContract list"
  puts :: "OptionContract list"

record TermStructurePoint =
  expiration :: string
  daysToExpiry :: number
  impliedVolatility :: number

record OptionsData =
  symbol :: string
  expirationDates :: "string list"
  chains' :: "OptionsChain list"
  impliedVolatility :: number
  ivRank :: number
  ivPercentile :: number
  skew :: number
  termStructure :: "TermStructurePoint list"

record FundamentalData =
  eps :: number
  revenue :: number
  netIncome :: number
  ebitda :: number
  peRatio :: number
  priceToSales :: number
  grossMargin :: number
  operatingMargin :: number
  freeCashFlowYield :: number
  pegRatio :: number
  forwardPE :: number

record AlternativeData =
  socialSentiment :: number
  newsScore :: number
  googleTrends :: number
  analystRating :: number
  targetPrice :: number
  upgrades :: number
  downgrades :: number

record StockData =
  symbol :: string
  price :: number
  change :: number
  changePercent :: number
  volume :: number
  marketCap :: "number option"
  high :: number
  low :: number
  open' :: number
  previousClose :: number
  vwap :: "number option"
  timestamp :: number

record TechnicalIndicators =
  rsi :: number
  ema9 :: number
  ema20 :: number
  adx :: number
  vwap :: number
  sma50 :: number
  sma200 :: number

record TradeRecommendation =
  ticker :: string
  strategy :: string
  legs :: string
  thesis :: string
  pop :: number
  maxLoss :: number
  creditRatio :: number
  modelScore :: number
  sector :: string

datatype level = Low | Medium | High

record OptionTradeRecommendation =
  strategy :: string
  description :: string
  reasoning :: string
  expectedMove :: number
  timeframe :: string
  riskLevel :: level
  profitPotential :: level

text \<open>The shape of \<^verbatim>\<open>timeframes\<close> and \<^verbatim>\<open>averageMoves\<close> of \<^verbatim>\<open>HistoricalVolatilityData\<close>.\<close>

record Timeframes =
  oneDay :: number
  oneWeek :: number
  oneMonth :: number
  threeMonths :: number
  sixMonths :: number

section \<open>The environment: random numbers, the clock, the network\<close>

text \<open>
  \<^verbatim>\<open>Math.random()\<close> and \<^verbatim>\<open>Date.now()\<close> read the world: the sequence of values the
  random generator is going to return, how many of them have been consumed, and the time.
  A function of the source that calls them takes the world and returns the new one.
\<close>

record world =
  draws :: "nat \<Rightarrow> real"
  cursor :: nat
  now :: real

definition Math_random :: "world \<Rightarrow> number \<times> world" where
  "Math_random w = (Num (draws w (cursor w)), w\<lparr>cursor := Suc (cursor w)\<rparr>)"

definition Date_now :: "world \<Rightarrow> number" where
  "Date_now w = Num (now w)"

text \<open>
  A parsed JSON body. \<open>truthy\<close> is the test of \<^verbatim>\<open>if (v)\<close>. Reading a property of
  \<^verbatim>\<open>null\<close> throws a \<^verbatim>\<open>TypeError\<close>; an object yields the value of its last entry of
  that name or \<^verbatim>\<open>undefined\<close> (\<open>None\<close>); the other values have neither of the two
  properties the module reads (\<^verbatim>\<open>error\<close> and \<^verbatim>\<open>price\<close>).
\<close>

datatype json = JNull | JBool bool | JNumber real | JString string
  | JArray "json list" | JObject "(string \<times> json) list"

datatype js_error = TypeError | Error | Rejection

fun truthy :: "json option \<Rightarrow> bool" where
  "truthy None = False"
| "truthy (Some JNull) = False"
| "truthy (Some (JBool b)) = b"
| "truthy (Some (JNumber r)) = (r \<noteq> 0)"
| "truthy (Some (JString s)) = (s \<noteq> [])"
| "truthy (Some (JArray vs)) = True"
| "truthy (Some (JObject kvs)) = True"

fun get_property :: "json \<Rightarrow> string \<Rightarrow> js_error + json option" where
  "get_property JNull name = Inl TypeError"
| "get_property (JObject kvs) name = Inr (map_of (rev kvs) name)"
| "get_property v name = Inr None"

text \<open>
  The conversions of the language, on the values a parsed body consists of. A value that an
  expression reads is \<^verbatim>\<open>undefined\<close>, a part of a parsed body, or a number.

  \<open>ToString\<close>: an array is the join of its elements with commas, where \<^verbatim>\<open>null\<close> is the
  empty string. An object of a parsed body has no callable member, so that its conversion to
  a primitive value finds \<^verbatim>\<open>Object.prototype.toString\<close> and yields \<^verbatim>\<open>[object Object]\<close>,
  unless the object has a member \<^verbatim>\<open>toString\<close> of its own, which hides that method: then
  neither \<^verbatim>\<open>toString\<close> nor \<^verbatim>\<open>valueOf\<close> yields a primitive value and the conversion
  throws a \<^verbatim>\<open>TypeError\<close>.

  \<open>ToNumber\<close>: \<^verbatim>\<open>undefined\<close> is NaN, \<^verbatim>\<open>null\<close> is 0, a truth value is 0 or 1, an array
  is the number its string denotes, an object is NaN or throws as above. How a number is
  printed and what number a string denotes are the parameters \<open>print\<close> and \<open>parse\<close>;
  neither throws.
\<close>

datatype js_value = Undefined | JsonValue json | NumberValue number

fun ToString_json :: "(real \<Rightarrow> string) \<Rightarrow> json \<Rightarrow> js_error + string"
  and join_json :: "(real \<Rightarrow> string) \<Rightarrow> json list \<Rightarrow> js_error + string" where
  "ToString_json print JNull = Inr ''null''"
| "ToString_json print (JBool b) = Inr (if b then ''true'' else ''false'')"
| "ToString_json print (JNumber r) = Inr (print r)"
| "ToString_json print (JString s) = Inr s"
| "ToString_json print (JArray vs) = join_json print vs"
| "ToString_json print (JObject kvs) =
     (if ''toString'' \<in> set (map fst kvs) then Inl TypeError else Inr ''[object Object]'')"
| "join_json print [] = Inr []"
| "join_json print (v # vs) =
     (case (if v = JNull then Inr [] else ToString_json print v) of
        Inl e \<Rightarrow> Inl e
      | Inr s \<Rightarrow>
          (if vs = [] then Inr s
           else (case join_json print vs of Inl e \<Rightarrow> Inl e | Inr t \<Rightarrow> Inr (s @ '','' @ t))))"

fun ToNumber :: "(string \<Rightarrow> number) \<Rightarrow> (real \<Rightarrow> string) \<Rightarrow> js_value \<Rightarrow> js_error + number" where
  "ToNumber parse print Undefined = Inr NaN"
| "ToNumber parse print (NumberValue x) = Inr x"
| "ToNumber parse print (JsonValue JNull) = Inr (Num 0)"
| "ToNumber parse print (JsonValue (JBool b)) = Inr (Num (if b then 1 else 0))"
| "ToNumber parse print (JsonValue (JNumber r)) = Inr (Num r)"
| "ToNumber parse print (JsonValue (JString s)) = Inr (parse s)"
| "ToNumber parse print (JsonValue (JArray vs)) =
     (case join_json print vs of Inl e \<Rightarrow> Inl e | Inr s \<Rightarrow> Inr (parse s))"
| "ToNumber parse print (JsonValue (JObject kvs)) =
     (if ''toString'' \<in> set (map fst kvs) then Inl TypeError else Inr NaN)"

text \<open>
  \<^verbatim>\<open>v * x\<close> for a value \<open>v\<close> and a number \<open>x\<close>: the right operand has been evaluated
  when the left one is converted.
\<close>

definition times_value ::
  "(string \<Rightarrow> number) \<Rightarrow> (real \<Rightarrow> string) \<Rightarrow> js_value \<Rightarrow> number \<Rightarrow> js_error + number" where
  "times_value parse print v x = (case ToNumber parse print v of Inl e \<Rightarrow> Inl e | Inr p \<Rightarrow> Inr (p * x))"

text \<open>
  The outcome of \<^verbatim>\<open>fetch(url)\<close>: the promise rejects (no connection), or there is a
  response. \<^verbatim>\<open>response.text()\<close> and \<^verbatim>\<open>response.json()\<close> reject when the body cannot
  be read or parsed (\<open>None\<close>).
\<close>

record response =
  ok :: bool
  status :: int
  body_text :: "string option"
  body_json :: "json option"

datatype fetch_outcome = NetworkError | Response response

text \<open>\<^verbatim>\<open>try { body } catch (error) { handler }\<close>.\<close>

definition try_catch :: "(js_error + 'a) \<times> world \<Rightarrow> (world \<Rightarrow> (js_error + 'a) \<times> world) \<Rightarrow> (js_error + 'a) \<times> world" where
  "try_catch body handler = (case body of (Inl e, w) \<Rightarrow> handler w | (Inr v, w) \<Rightarrow> (Inr v, w))"

section \<open>Stock data\<close>

subsection \<open>generateFallbackStockData\<close>

text \<open>\<^verbatim>\<open>String.prototype.toUpperCase\<close> is the parameter \<open>toUpperCase\<close>; the argument
  \<^verbatim>\<open>symbol\<close> is \<open>symbol'\<close> here, \<open>symbol\<close> being the field.\<close>

definition generateFallbackStockData :: "(string \<Rightarrow> string) \<Rightarrow> string \<Rightarrow> world \<Rightarrow> StockData \<times> world" where
  "generateFallbackStockData toUpperCase symbol' w =
     (let (r1, w1) = Math_random w;
          basePrice = Num 150 + r1 * Num 300;
          (r2, w2) = Math_random w1;
          changePercent = (r2 - Num 0.5) * Num 10;
          change = basePrice * (changePercent / Num 100);
          previousClose = basePrice - change;
          (r3, w3) = Math_random w2;
          (r4, w4) = Math_random w3;
          (r5, w5) = Math_random w4;
          (r6, w6) = Math_random w5;
          (r7, w7) = Math_random w6
      in (\<lparr>symbol = toUpperCase symbol',
           price = basePrice,
           change = change,
           changePercent = changePercent,
           volume = Math_floor (r3 * Num 10000000) + Num 1000000,
           marketCap = Some (Math_floor (r7 * Num 1000000000000) + Num 100000000000),
           high = basePrice + r4 * Num 10,
           low = basePrice - r5 * Num 10,
           open' = previousClose + (r6 - Num 0.5) * Num 5,
           previousClose = previousClose,
           vwap = None,
           timestamp = Date_now w7\<rparr>, w7))"

subsection \<open>fetchStockData\<close>

text \<open>
  The function returns either the parsed body as it is (the source does not check it
  against \<^verbatim>\<open>StockData\<close>) or the generated fallback record. The messages of the errors
  thrown in the \<^verbatim>\<open>try\<close> block are only logged, so an error carries none.
\<close>

datatype stock_result = Proxied json | Mock StockData

definition fetchStockData_try :: "(string \<Rightarrow> fetch_outcome) \<Rightarrow> string \<Rightarrow> js_error + stock_result" where
  "fetchStockData_try fetch symbol' =
     (let apiUrl = ''/api/stock/'' @ symbol'
      in case fetch apiUrl of
           NetworkError \<Rightarrow> Inl Rejection
         | Response response \<Rightarrow>
             if \<not> ok response then
               (case body_text response of None \<Rightarrow> Inl Rejection | Some errorText \<Rightarrow> Inl Error)
             else
               (case body_json response of
                  None \<Rightarrow> Inl Rejection
                | Some data \<Rightarrow>
                    (case get_property data ''error'' of
                       Inl e \<Rightarrow> Inl e
                     | Inr err \<Rightarrow> if truthy err then Inl Error else Inr (Proxied data))))"

definition fetchStockData ::
  "(string \<Rightarrow> string) \<Rightarrow> (string \<Rightarrow> fetch_outcome) \<Rightarrow> string \<Rightarrow> world \<Rightarrow> (js_error + stock_result) \<times> world" where
  "fetchStockData toUpperCase fetch symbol' w =
     try_catch (fetchStockData_try fetch symbol', w)
       (\<lambda>w'. case generateFallbackStockData toUpperCase symbol' w' of (d, w'') \<Rightarrow> (Inr (Mock d), w''))"

text \<open>
  The specification's wording: a body carries an error field when it is an object with a
  member \<^verbatim>\<open>error\<close>.
\<close>

fun has_error_field :: "json \<Rightarrow> bool" where
  "has_error_field (JObject kvs) = (''error'' \<in> set (map fst kvs))"
| "has_error_field v = False"

text \<open>
  What the source tests with \<^verbatim>\<open>if (data.error)\<close>: a body reports an error when its member
  \<^verbatim>\<open>error\<close> is a value the language treats as true. The request succeeds fully when
  there is a response with an ok status whose body parses to a value other than \<^verbatim>\<open>null\<close>
  that reports no error; then that value is the proxied data.
\<close>

fun reports_error :: "json \<Rightarrow> bool" where
  "reports_error (JObject kvs) = truthy (map_of (rev kvs) ''error'')"
| "reports_error v = False"

definition proxied_data :: "fetch_outcome \<Rightarrow> json option" where
  "proxied_data outcome =
     (case outcome of
        NetworkError \<Rightarrow> None
      | Response response \<Rightarrow>
          if ok response then
            (case body_json response of
               None \<Rightarrow> None
             | Some data \<Rightarrow> if data = JNull \<or> reports_error data then None else Some data)
          else None)"

text \<open>
  The mock record as a function of the seven random draws \<open>r 0\<close>, ..., \<open>r 6\<close> that
  \<^verbatim>\<open>generateFallbackStockData\<close> consumes, in the order of the calls, and of the time.
\<close>

definition mock_of :: "(string \<Rightarrow> string) \<Rightarrow> string \<Rightarrow> (nat \<Rightarrow> number) \<Rightarrow> number \<Rightarrow> StockData" where
  "mock_of toUpperCase symbol' r time =
     \<lparr>symbol = toUpperCase symbol',
      price = Num 150 + r 0 * Num 300,
      change = (Num 150 + r 0 * Num 300) * ((r 1 - Num 0.5) * Num 10 / Num 100),
      changePercent = (r 1 - Num 0.5) * Num 10,
      volume = Math_floor (r 2 * Num 10000000) + Num 1000000,
      marketCap = Some (Math_floor (r 6 * Num 1000000000000) + Num 100000000000),
      high = (Num 150 + r 0 * Num 300) + r 3 * Num 10,
      low = (Num 150 + r 0 * Num 300) - r 4 * Num 10,
      open' = ((Num 150 + r 0 * Num 300)
                 - (Num 150 + r 0 * Num 300) * ((r 1 - Num 0.5) * Num 10 / Num 100))
              + (r 5 - Num 0.5) * Num 5,
      previousClose = (Num 150 + r 0 * Num 300)
                 - (Num 150 + r 0 * Num 300) * ((r 1 - Num 0.5) * Num 10 / Num 100),
      vwap = None,
      timestamp = time\<rparr>"

subsection \<open>fetchTechnicalIndicators\<close>

text \<open>
  \<^verbatim>\<open>stockData.price\<close>: a member of the parsed body, or the number of the mock record.
  The five constants that hold the products carry a prime.
\<close>

definition price_of :: "stock_result \<Rightarrow> js_error + js_value" where
  "price_of stockData =
     (case stockData of
        Mock d \<Rightarrow> Inr (NumberValue (price d))
      | Proxied data \<Rightarrow>
          (case get_property data ''price'' of
             Inl e \<Rightarrow> Inl e
           | Inr None \<Rightarrow> Inr Undefined
           | Inr (Some v) \<Rightarrow> Inr (JsonValue v)))"

definition fetchTechnicalIndicators_try ::
  "(string \<Rightarrow> number) \<Rightarrow> (real \<Rightarrow> string) \<Rightarrow> (string \<Rightarrow> string) \<Rightarrow> (string \<Rightarrow> fetch_outcome) \<Rightarrow> string
   \<Rightarrow> world \<Rightarrow> (js_error + TechnicalIndicators) \<times> world" where
  "fetchTechnicalIndicators_try parse print toUpperCase fetch symbol' w =
     (case fetchStockData toUpperCase fetch symbol' w of
        (Inl e, w0) \<Rightarrow> (Inl e, w0)
      | (Inr stockData, w0) \<Rightarrow>
          (case price_of stockData of
             Inl e \<Rightarrow> (Inl e, w0)
           | Inr currentPrice \<Rightarrow>
      (let (r1, w1) = Math_random w0 in
       case times_value parse print currentPrice (Num 0.995 + r1 * Num 0.01) of
         Inl e \<Rightarrow> (Inl e, w1)
       | Inr vwap' \<Rightarrow>
      (let (r2, w2) = Math_random w1 in
       case times_value parse print currentPrice (Num 0.99 + r2 * Num 0.02) of
         Inl e \<Rightarrow> (Inl e, w2)
       | Inr ema9' \<Rightarrow>
      (let (r3, w3) = Math_random w2 in
       case times_value parse print currentPrice (Num 0.985 + r3 * Num 0.03) of
         Inl e \<Rightarrow> (Inl e, w3)
       | Inr ema20' \<Rightarrow>
      (let (r4, w4) = Math_random w3 in
       case times_value parse print currentPrice (Num 0.97 + r4 * Num 0.06) of
         Inl e \<Rightarrow> (Inl e, w4)
       | Inr sma50' \<Rightarrow>
      (let (r5, w5) = Math_random w4 in
       case times_value parse print currentPrice (Num 0.9 + r5 * Num 0.2) of
         Inl e \<Rightarrow> (Inl e, w5)
       | Inr sma200' \<Rightarrow>
      (let (r6, w6) = Math_random w5;
           (r7, w7) = Math_random w6
       in (Inr \<lparr>rsi = Num 45 + r6 * Num 20,
                ema9 = ema9',
                ema20 = ema20',
                adx = Num 15 + r7 * Num 20,
                vwap = vwap',
                sma50 = sma50',
                sma200 = sma200'\<rparr>, w7)))))))))"

definition fetchTechnicalIndicators ::
  "(string \<Rightarrow> number) \<Rightarrow> (real \<Rightarrow> string) \<Rightarrow> (string \<Rightarrow> string) \<Rightarrow> (string \<Rightarrow> fetch_outcome) \<Rightarrow> string
   \<Rightarrow> world \<Rightarrow> (js_error + TechnicalIndicators) \<times> world" where
  "fetchTechnicalIndicators parse print toUpperCase fetch symbol' w =
     try_catch (fetchTechnicalIndicators_try parse print toUpperCase fetch symbol' w)
       (\<lambda>w'. (Inr \<lparr>rsi = Num 50, ema9 = Num 200, ema20 = Num 195, adx = Num 25,
                    vwap = Num 198, sma50 = Num 190, sma200 = Num 180\<rparr>, w'))"

section \<open>Recommendations\<close>

subsection \<open>generateOptionRecommendations\<close>

text \<open>
  \<^verbatim>\<open>Number.prototype.toFixed\<close> is the parameter \<open>toFixed\<close> (the number, then the
  digits). \<open>pushed_recommendations\<close> is the array before the final \<^verbatim>\<open>slice(0, 5)\<close>.
\<close>

definition pushed_recommendations ::
  "(number \<Rightarrow> nat \<Rightarrow> string) \<Rightarrow> Timeframes \<Rightarrow> Timeframes \<Rightarrow> number \<Rightarrow> OptionTradeRecommendation list" where
  "pushed_recommendations toFixed volatilities averageMoves currentPrice =
     (let recommendations0 = [];
          recommendations1 =
            (if Num 30 < oneMonth volatilities then
               recommendations0 @
               [\<lparr>strategy = ''Short Straddle'',
                 description = ''Sell ATM call and put (30-45 DTE)'',
                 reasoning = ''High implied volatility ('' @ toFixed (oneMonth volatilities) 1
                   @ ''%) suggests premium is expensive. Profit from volatility contraction.'',
                 expectedMove = oneMonth averageMoves,
                 timeframe = ''30-45 days'',
                 riskLevel = High,
                 profitPotential = High\<rparr>] @
               [\<lparr>strategy = ''Iron Condor'',
                 description = ''Sell '' @ toFixed (currentPrice * Num 0.97) 0 @ ''/''
                   @ toFixed (currentPrice * Num 1.03) 0 @ '' strikes'',
                 reasoning = ''High IV environment favors premium selling with defined risk.'',
                 expectedMove = oneMonth averageMoves,
                 timeframe = ''30-45 days'',
                 riskLevel = Medium,
                 profitPotential = Medium\<rparr>]
             else recommendations0);
          recommendations2 =
            (if oneMonth volatilities < Num 20 then
               recommendations1 @
               [\<lparr>strategy = ''Long Straddle'',
                 description = ''Buy ATM call and put (30-45 DTE)'',
                 reasoning = ''Low implied volatility ('' @ toFixed (oneMonth volatilities) 1
                   @ ''%) suggests options are cheap. Profit from volatility expansion.'',
                 expectedMove = oneMonth averageMoves,
                 timeframe = ''30-45 days'',
                 riskLevel = Medium,
                 profitPotential = High\<rparr>]
             else recommendations1);
          recommendations3 =
            (if threeMonths volatilities * Num 1.2 < oneWeek volatilities then
               recommendations2 @
               [\<lparr>strategy = ''Calendar Spread'',
                 description = ''Sell short-term, buy long-term options'',
                 reasoning = ''Recent volatility spike suggests short-term premium is elevated.'',
                 expectedMove = oneWeek averageMoves,
                 timeframe = ''2-4 weeks'',
                 riskLevel = Low,
                 profitPotential = Medium\<rparr>]
             else recommendations2)
      in recommendations3 @
         [\<lparr>strategy = ''Cash-Secured Put'',
           description = ''Sell '' @ toFixed (currentPrice * Num 0.95) 0 @ '' put (30-45 DTE)'',
           reasoning = ''Collect premium while potentially acquiring shares at ''
             @ toFixed (((currentPrice * Num 0.95) / currentPrice) * Num 100 - Num 100) 1
             @ ''% discount.'',
           expectedMove = oneMonth averageMoves,
           timeframe = ''30-45 days'',
           riskLevel = Low,
           profitPotential = Low\<rparr>])"

definition generateOptionRecommendations ::
  "(number \<Rightarrow> nat \<Rightarrow> string) \<Rightarrow> Timeframes \<Rightarrow> Timeframes \<Rightarrow> number \<Rightarrow> OptionTradeRecommendation list" where
  "generateOptionRecommendations toFixed volatilities averageMoves currentPrice =
     take 5 (pushed_recommendations toFixed volatilities averageMoves currentPrice)"

subsection \<open>generateTradeRecommendations\<close>

text \<open>
  The conversion of a number to a string inside a template literal is the parameter
  \<open>toString\<close>. The function is embedded as the functions that read the random generator
  and the clock are: it is given the world and returns it, so that what it reads can be
  stated. A call of \<^verbatim>\<open>Math.random()\<close> or \<^verbatim>\<open>Date.now()\<close> in its body would show as a use
  of \<open>w\<close>; the body has none.
\<close>

definition generateTradeRecommendations ::
  "(number \<Rightarrow> string) \<Rightarrow> string \<Rightarrow> StockData \<Rightarrow> OptionsData \<Rightarrow> FundamentalData \<Rightarrow> AlternativeData
   \<Rightarrow> TechnicalIndicators \<Rightarrow> world \<Rightarrow> TradeRecommendation list \<times> world" where
  "generateTradeRecommendations toString symbol' stockData optionsData fundamentalData alternativeData
     technicalData w =
     (let trades0 = [];
          currentPrice = price stockData;
          trades1 =
            (if rsi technicalData < Num 70 \<and> Num 0 < socialSentiment alternativeData
                \<and> Num 0 < changePercent stockData then
               (let strike1 = Math_round currentPrice;
                    strike2 = Math_round (currentPrice * Num 1.05)
                in trades0 @
                   [\<lparr>ticker = symbol',
                     strategy = ''Bull Call Spread'',
                     legs = ''Buy '' @ toString strike1 @ ''C / Sell '' @ toString strike2 @ ''C (30 DTE)'',
                     thesis = ''Strong momentum, positive sentiment, RSI not overbought'',
                     pop = Num 0.72,
                     maxLoss = Num 250,
                     creditRatio = Num 0.4,
                     modelScore = Num 0.85,
                     sector = ''Technology''\<rparr>])
             else trades0);
          trades2 =
            (if Num 30 < rsi technicalData \<and> Num 50 < ivPercentile optionsData
                \<and> Num 3 < analystRating alternativeData then
               (let strike = Math_round (currentPrice * Num 0.95)
                in trades1 @
                   [\<lparr>ticker = symbol',
                     strategy = ''Cash Secured Put'',
                     legs = ''Sell '' @ toString strike @ ''P (45 DTE)'',
                     thesis = ''High IV, strong support level, analyst upgrades'',
                     pop = Num 0.68,
                     maxLoss = Num 480,
                     creditRatio = Num 0.35,
                     modelScore = Num 0.78,
                     sector = ''Technology''\<rparr>])
             else trades1);
          trades3 =
            (if adx technicalData < Num 25 \<and> Num 60 < ivPercentile optionsData then
               (let strike1 = Math_round (currentPrice * Num 0.95);
                    strike2 = Math_round (currentPrice * Num 0.98);
                    strike3 = Math_round (currentPrice * Num 1.02);
                    strike4 = Math_round (currentPrice * Num 1.05)
                in trades2 @
                   [\<lparr>ticker = symbol',
                     strategy = ''Iron Condor'',
                     legs = ''Sell '' @ toString strike2 @ ''P/'' @ toString strike3 @ ''C, Buy ''
                       @ toString strike1 @ ''P/'' @ toString strike4 @ ''C (30 DTE)'',
                     thesis = ''Low volatility environment, range-bound price action'',
                     pop = Num 0.65,
                     maxLoss = Num 350,
                     creditRatio = Num 0.42,
                     modelScore = Num 0.71,
                     sector = ''Technology''\<rparr>])
             else trades2)
      in (take 5 trades3, w))"

text \<open>
  The four numbers a trade template carries, with its name: the reading of a returned
  list that the statement about the templates uses.
\<close>

definition template_numbers :: "TradeRecommendation \<Rightarrow> string \<times> number \<times> number \<times> number \<times> number" where
  "template_numbers t = (TradeRecommendation.strategy t, pop t, maxLoss t, creditRatio t, modelScore t)"

text \<open>
  What \<^verbatim>\<open>fetchTechnicalIndicators\<close> returns, as a function of the fetched price and of the
  seven random draws \<open>r 0\<close>, ..., \<open>r 6\<close> it consumes, in the order of the calls.
\<close>

definition indicators_of :: "number \<Rightarrow> (nat \<Rightarrow> number) \<Rightarrow> TechnicalIndicators" where
  "indicators_of currentPrice r =
     \<lparr>rsi = Num 45 + r 5 * Num 20,
      ema9 = currentPrice * (Num 0.99 + r 1 * Num 0.02),
      ema20 = currentPrice * (Num 0.985 + r 2 * Num 0.03),
      adx = Num 15 + r 6 * Num 20,
      vwap = currentPrice * (Num 0.995 + r 0 * Num 0.01),
      sma50 = currentPrice * (Num 0.97 + r 3 * Num 0.06),
      sma200 = currentPrice * (Num 0.9 + r 4 * Num 0.2)\<rparr>"

section \<open>Concrete inputs\<close>

text \<open>
  An upper-casing of ASCII letters, a world whose generator returns seven times 0 and then
  1/2 for ever, a server that answers with a price of 100, one that answers with an error
  message and the status 500, and no connection at all.
\<close>

fun upper_char :: "char \<Rightarrow> char" where
  "upper_char (Char b0 b1 b2 b3 b4 b5 b6 b7) =
     (if 97 \<le> (of_char (Char b0 b1 b2 b3 b4 b5 b6 b7) :: nat)
         \<and> (of_char (Char b0 b1 b2 b3 b4 b5 b6 b7) :: nat) \<le> 122
      then Char b0 b1 b2 b3 b4 False b6 b7 else Char b0 b1 b2 b3 b4 b5 b6 b7)"

definition ascii_upper :: "string \<Rightarrow> string" where
  "ascii_upper s = map upper_char s"

definition example_draws :: "nat \<Rightarrow> real" where
  "example_draws n = (if n < 7 then 0 else 1 / 2)"

definition example_world :: world where
  "example_world = \<lparr>draws = example_draws, cursor = 0, now = 1700000000000\<rparr>"

definition price_100 :: "string \<Rightarrow> fetch_outcome" where
  "price_100 url =
     Response \<lparr>ok = True, status = 200, body_text = Some [],
               body_json = Some (JObject [(''symbol'', JString ''AAPL''), (''price'', JNumber 100)])\<rparr>"

definition server_error :: "string \<Rightarrow> fetch_outcome" where
  "server_error url =
     Response \<lparr>ok = False, status = 500, body_text = Some [],
               body_json = Some (JObject [(''error'', JString ''Failed to fetch stock data'')])\<rparr>"

definition offline :: "string \<Rightarrow> fetch_outcome" where
  "offline url = NetworkError"

text \<open>
  A server whose answer has an empty error message, and one whose answer has a price that
  is an object with members \<^verbatim>\<open>valueOf\<close> and \<^verbatim>\<open>toString\<close>. Printing and parsing that
  are not looked into.
\<close>

definition empty_error :: "string \<Rightarrow> fetch_outcome" where
  "empty_error url =
     Response \<lparr>ok = True, status = 200, body_text = Some [],
               body_json = Some (JObject [(''error'', JString [])])\<rparr>"

definition price_object :: "string \<Rightarrow> fetch_outcome" where
  "price_object url =
     Response \<lparr>ok = True, status = 200, body_text = Some [],
               body_json = Some (JObject [(''price'',
                 JObject [(''valueOf'', JNumber 1), (''toString'', JNumber 1)])])\<rparr>"

definition parse_unknown :: "string \<Rightarrow> number" where
  "parse_unknown s = NaN"

definition print_unknown :: "real \<Rightarrow> string" where
  "print_unknown x = ''n''"

text \<open>Number formatting that is not looked into, and one input of each interface.\<close>

definition fixed_unknown :: "number \<Rightarrow> nat \<Rightarrow> string" where
  "fixed_unknown x digits = ''n''"

definition digits_unknown :: "number \<Rightarrow> string" where
  "digits_unknown x = ''n''"

definition example_stock :: StockData where
  "example_stock =
     \<lparr>symbol = ''AAPL'', price = Num 200, change = Num 2, changePercent = Num 1, volume = Num 1000000,
      marketCap = None, high = Num 201, low = Num 197, open' = Num 198, previousClose = Num 198,
      vwap = None, timestamp = Num 1700000000000\<rparr>"

definition example_options :: OptionsData where
  "example_options =
     \<lparr>OptionsData.symbol = ''AAPL'', expirationDates = [], chains' = [],
      OptionsData.impliedVolatility = Num 0.25,
      ivRank = Num 40, ivPercentile = Num 70, skew = Num 0, termStructure = []\<rparr>"

definition example_fundamentals :: FundamentalData where
  "example_fundamentals =
     \<lparr>eps = Num 6, revenue = Num 60000000000, netIncome = Num 12000000000, ebitda = Num 16000000000,
      peRatio = Num 20, priceToSales = Num 5, grossMargin = Num 0.4, operatingMargin = Num 0.2,
      freeCashFlowYield = Num 0.04, pegRatio = Num 1, forwardPE = Num 18\<rparr>"

definition example_alternative :: AlternativeData where
  "example_alternative =
     \<lparr>socialSentiment = Num 0.5, newsScore = Num 0.1, googleTrends = Num 50, analystRating = Num 4,
      targetPrice = Num 0, upgrades = Num 1, downgrades = Num 0\<rparr>"

definition example_technicals :: TechnicalIndicators where
  "example_technicals =
     \<lparr>rsi = Num 55, ema9 = Num 199, ema20 = Num 198, adx = Num 20, vwap = Num 199,
      sma50 = Num 195, sma200 = Num 180\<rparr>"

section \<open>Properties of the indicators\<close>

subsection \<open>Numbers and arrays\<close>

lemma number_add_assoc: "(a + b) + c = a + (b + c)" for a b c :: number
  by (cases a; cases b; cases c) auto

lemma number_add_zero_left: "Num 0 + a = a" for a :: number
  by (cases a) auto

lemma number_add_zero_right: "a + Num 0 = a" for a :: number
  by (cases a) auto

lemma foldl_add_Num: "foldl (\<lambda>sum x. sum + x) (Num a) (map Num xs) = Num (a + sum_list xs)"
  by (induction xs arbitrary: a) (auto simp: algebra_simps)

lemma reduce_sum_Num: "reduce_sum (map Num xs) = Num (sum_list xs)"
  by (simp add: reduce_sum_def foldl_add_Num)

lemma foldl_add_number_sum: "foldl (\<lambda>sum x. sum + f x) a xs = a + number_sum (map f xs)"
proof (induction xs arbitrary: a)
  case Nil
  then show ?case by (simp add: number_sum_def number_add_zero_right)
next
  case (Cons x xs)
  have "foldl (\<lambda>sum x. sum + f x) (a + f x) xs = (a + f x) + number_sum (map f xs)"
    by (rule Cons.IH)
  then show ?case by (simp add: number_sum_def number_add_assoc)
qed

lemma reduce_sum_number_sum: "reduce_sum xs = number_sum xs"
  using foldl_add_number_sum[of "\<lambda>x. x" "Num 0" xs]
  by (simp add: reduce_sum_def number_add_zero_left)

lemma at_index_in_range: "i < length xs \<Longrightarrow> at_index xs (int i) = Some (Num (xs ! i))"
  by (simp add: at_index_def)

lemma at_index_last:
  "xs \<noteq> [] \<Longrightarrow> at_index xs (int (length xs) - 1) = Some (Num (last xs))"
  by (cases xs rule: rev_cases) (auto simp: at_index_def nth_append)

lemma at_index_empty: "at_index [] i = None"
  by (simp add: at_index_def)

lemma sum_list_nth: "(\<Sum>k\<leftarrow>[0..<length xs]. xs ! k) = sum_list xs" for xs :: "real list"
  by (simp add: map_nth)

lemma sum_list_rev_real: "sum_list (rev xs) = sum_list xs" for xs :: "real list"
  by (induction xs) auto


subsection \<open>calculateRSI\<close>

lemma calculateRSI_loop_step:
  assumes "1 \<le> i" "i \<le> period" "Suc period \<le> length prices"
  shows "calculateRSI_loop prices period i (Num g) (Num l) =
     (if 0 < rsi_change prices i
      then calculateRSI_loop prices period (Suc i) (Num (g + rsi_change prices i)) (Num l)
      else calculateRSI_loop prices period (Suc i) (Num g) (Num (l - rsi_change prices i)))"
proof -
  have idx1: "at_index prices (int (length prices) - int i) = Some (Num (prices ! (length prices - i)))"
    using assms by (simp add: at_index_def nat_diff_distrib' of_nat_diff)
  have idx2: "at_index prices (int (length prices) - int i - 1) = Some (Num (prices ! (length prices - i - 1)))"
    using assms by (simp add: at_index_def nat_diff_distrib' of_nat_diff)
  have ch: "to_number (at_index prices (int (length prices) - int i))
            - to_number (at_index prices (int (length prices) - int i - 1)) = Num (rsi_change prices i)"
    unfolding idx1 idx2 by (simp add: minus_number_def rsi_change_def)
  have sub: "Num l - Num (rsi_change prices i) = Num (l - rsi_change prices i)"
    by (simp add: minus_number_def)
  show ?thesis
    apply (subst calculateRSI_loop.simps)
    unfolding ch Let_def sub
    using assms(2) by simp
qed

lemma calculateRSI_loop_sums:
  "1 \<le> i \<Longrightarrow> Suc period \<le> length prices \<Longrightarrow>
   calculateRSI_loop prices period i (Num g) (Num l) =
     (Num (g + (\<Sum>k\<leftarrow>[i..<Suc period]. max 0 (rsi_change prices k))),
      Num (l + (\<Sum>k\<leftarrow>[i..<Suc period]. max 0 (- rsi_change prices k))))"
proof (induction "Suc period - i" arbitrary: i g l)
  case 0
  then show ?case by (simp add: calculateRSI_loop.simps)
next
  case (Suc n)
  then have le: "i \<le> period" by simp
  have up: "[i..<Suc period] = i # [Suc i..<Suc period]"
    using le by (simp add: upt_conv_Cons)
  have n: "n = Suc period - Suc i" using Suc.hyps(2) by simp
  have ih: "\<And>g l. calculateRSI_loop prices period (Suc i) (Num g) (Num l) =
     (Num (g + (\<Sum>k\<leftarrow>[Suc i..<Suc period]. max 0 (rsi_change prices k))),
      Num (l + (\<Sum>k\<leftarrow>[Suc i..<Suc period]. max 0 (- rsi_change prices k))))"
    using Suc.hyps(1)[OF n] Suc.prems by simp
  show ?case
    unfolding calculateRSI_loop_step[OF Suc.prems(1) le Suc.prems(2)] ih up
    by simp
qed

lemma rsi_changes_rev:
  assumes "Suc period \<le> length prices"
  shows "map (rsi_change prices) [1..<Suc period] = rev (recent_changes prices period)"
proof (rule nth_equalityI)
  show "length (map (rsi_change prices) [1..<Suc period]) = length (rev (recent_changes prices period))"
    using assms by (simp add: recent_changes_def Let_def)
next
  fix j assume "j < length (map (rsi_change prices) [1..<Suc period])"
  then have j: "j < period" by (simp del: upt_Suc)
  have len: "length (recent_changes prices period) = period"
    using assms by (simp add: recent_changes_def Let_def)
  have "rev (recent_changes prices period) ! j = recent_changes prices period ! (period - Suc j)"
    using j len by (simp add: rev_nth)
  also have "\<dots> = rsi_change prices (Suc j)"
  proof -
    let ?n = "length prices"
    let ?w = "drop (?n - Suc period) prices"
    let ?m = "period - Suc j"
    have lw: "length ?w = Suc period" using assms by simp
    have "recent_changes prices period ! ?m = tl ?w ! ?m - ?w ! ?m"
      using j lw by (simp add: recent_changes_def Let_def)
    also have "tl ?w ! ?m = prices ! (?n - Suc j)"
    proof -
      have e: "?n - Suc period + Suc ?m = ?n - Suc j" using j assms by arith
      have "tl ?w ! ?m = ?w ! Suc ?m" using j lw by (simp add: nth_tl)
      also have "\<dots> = prices ! (?n - Suc period + Suc ?m)" using assms by (intro nth_drop) simp
      finally show ?thesis unfolding e .
    qed
    also have "?w ! ?m = prices ! (?n - Suc j - 1)"
    proof -
      have e: "?n - Suc period + ?m = ?n - Suc j - 1" using j assms by arith
      have "?w ! ?m = prices ! (?n - Suc period + ?m)" using assms by (intro nth_drop) simp
      then show ?thesis unfolding e .
    qed
    finally show ?thesis by (simp add: rsi_change_def)
  qed
  finally show "map (rsi_change prices) [1..<Suc period] ! j = rev (recent_changes prices period) ! j"
    using j by (simp add: nth_map_upt del: upt_Suc)
qed

lemma sum_max_pos: "(\<Sum>c\<leftarrow>cs. max 0 c) = sum_list (filter (\<lambda>c. 0 < c) cs)" for cs :: "real list"
  by (induction cs) auto

lemma sum_max_neg: "(\<Sum>c\<leftarrow>cs. max 0 (- c)) = sum_list (map abs (filter (\<lambda>c. c < 0) cs))" for cs :: "real list"
  by (induction cs) auto

lemma rsi_loop_result:
  assumes "Suc period \<le> length prices"
  shows "calculateRSI_loop prices period 1 (Num 0) (Num 0) =
     (Num (sum_list (filter (\<lambda>c. 0 < c) (recent_changes prices period))),
      Num (sum_list (map abs (filter (\<lambda>c. c < 0) (recent_changes prices period)))))"
proof -
  let ?cs = "recent_changes prices period"
  have m: "\<And>f :: real \<Rightarrow> real. (\<Sum>k\<leftarrow>[1..<Suc period]. f (rsi_change prices k)) = (\<Sum>c\<leftarrow>rev ?cs. f c)"
  proof -
    fix f :: "real \<Rightarrow> real"
    have "(\<Sum>k\<leftarrow>[1..<Suc period]. f (rsi_change prices k)) =
          sum_list (map f (map (rsi_change prices) [1..<Suc period]))"
      by (simp only: map_map comp_def)
    then show "(\<Sum>k\<leftarrow>[1..<Suc period]. f (rsi_change prices k)) = (\<Sum>c\<leftarrow>rev ?cs. f c)"
      by (simp only: rsi_changes_rev[OF assms])
  qed
  have p: "(\<Sum>c\<leftarrow>rev ?cs. max 0 c) = sum_list (filter (\<lambda>c. 0 < c) ?cs)"
    by (simp add: rev_map[symmetric] sum_list_rev_real sum_max_pos)
  have n: "(\<Sum>c\<leftarrow>rev ?cs. max 0 (- c)) = sum_list (map abs (filter (\<lambda>c. c < 0) ?cs))"
    by (simp add: rev_map[symmetric] sum_list_rev_real sum_max_neg)
  show ?thesis
    using calculateRSI_loop_sums[of 1 period prices 0 0] assms m[of "\<lambda>c. max 0 c"] m[of "\<lambda>c. max 0 (- c)"] p n
    by simp
qed

lemma sum_pos_nonneg: "0 \<le> sum_list (filter (\<lambda>c. 0 < c) cs)" for cs :: "real list"
  by (induction cs) auto

lemma sum_neg_nonneg: "0 \<le> sum_list (map abs (filter (\<lambda>c. c < 0) cs))" for cs :: "real list"
  by (induction cs) auto

lemma ratio_of_averages:
  assumes "0 \<le> g" "0 \<le> l" "p = 0 \<longrightarrow> g = 0 \<and> l = 0" "0 \<le> p"
  shows "(Num g / Num p) / (Num l / Num p) = Num g / Num l"
proof (cases "p = 0")
  case True
  then show ?thesis using assms by simp
next
  case False
  then have p: "0 < p" using assms by simp
  show ?thesis
  proof (cases "l = 0")
    case True
    then show ?thesis using p assms(1) False by (cases "g = 0") auto
  next
    case False
    then show ?thesis using p by simp
  qed
qed

lemma recent_changes_zero: "recent_changes prices 0 = []"
proof -
  have "length (recent_changes prices 0) = 0"
    by (simp add: recent_changes_def Let_def)
  then show ?thesis by simp
qed

lemma rsi_rs_spec:
  assumes "Suc period \<le> length prices"
  shows "rsi_rs prices period = rsi_spec_RS prices period"
proof -
  let ?cs = "recent_changes prices period"
  let ?g = "sum_list (filter (\<lambda>c. 0 < c) ?cs)"
  let ?l = "sum_list (map abs (filter (\<lambda>c. c < 0) ?cs))"
  have z: "real period = 0 \<longrightarrow> ?g = 0 \<and> ?l = 0"
    by (auto simp: recent_changes_zero)
  show ?thesis
    unfolding rsi_rs_def rsi_avgGain_def rsi_avgLoss_def rsi_spec_RS_def Let_def
      rsi_loop_result[OF assms] fst_conv snd_conv
    by (rule ratio_of_averages[OF sum_pos_nonneg sum_neg_nonneg z]) simp
qed

lemma calculateRSI_long:
  assumes "Suc period \<le> length prices"
  shows "calculateRSI prices period = Num 100 - Num 100 / (Num 1 + rsi_spec_RS prices period)"
proof -
  have "\<not> int (length prices) < int period + 1" using assms by simp
  then show ?thesis by (simp add: calculateRSI_def rsi_rs_spec[OF assms])
qed

text \<open>
  Claim C3. For every price list with at least \<open>period + 1\<close> entries \<^verbatim>\<open>calculateRSI\<close>
  returns \<open>100 - 100 / (1 + RS)\<close>, where \<open>RS\<close> is the sum of the positive changes divided by
  the sum of the absolute values of the negative changes among the last \<open>period\<close>
  changes between consecutive prices; for every shorter list it returns exactly 50. The
  period is 14 when none is given.
\<close>

theorem calculateRSI_formula:
  "(Suc period \<le> length prices \<longrightarrow>
      calculateRSI prices period = Num 100 - Num 100 / (Num 1 + rsi_spec_RS prices period)) \<and>
   (length prices < Suc period \<longrightarrow> calculateRSI prices period = Num 50) \<and>
   calculateRSI_default prices = calculateRSI prices 14"
proof (intro conjI impI)
  assume "Suc period \<le> length prices"
  then show "calculateRSI prices period = Num 100 - Num 100 / (Num 1 + rsi_spec_RS prices period)"
    by (rule calculateRSI_long)
next
  assume "length prices < Suc period"
  then have "int (length prices) < int period + 1" by simp
  then show "calculateRSI prices period = Num 50" by (simp add: calculateRSI_def)
next
  show "calculateRSI_default prices = calculateRSI prices 14" by (simp add: calculateRSI_default_def)
qed

text \<open>
  The prices 1, 3, 2 with period 2 gain 2 and lose 1: \<open>RS = 2\<close> and the index is 200/3.
  Two prices are too few for period 2.
\<close>

theorem calculateRSI_formula_witness:
  "Suc 2 \<le> length [1, 3, 2 :: real] \<and> calculateRSI [1, 3, 2] 2 = Num (200 / 3) \<and>
   length [1, 3 :: real] < Suc 2 \<and> calculateRSI [1, 3] 2 = Num 50"
  using calculateRSI_formula[of 2 "[1, 3, 2]"] calculateRSI_formula[of 2 "[1, 3]"]
  by (simp add: rsi_spec_RS_def recent_changes_def minus_number_def)

subsection \<open>calculateEMA\<close>

lemma calculateEMA_loop_foldl:
  "i \<le> length prices \<Longrightarrow>
   calculateEMA_loop prices m i ema =
     foldl (\<lambda>ema p. Num p * m + ema * (Num 1 - m)) ema (drop i prices)"
proof (induction "length prices - i" arbitrary: i ema)
  case 0
  then show ?case by (simp add: calculateEMA_loop.simps)
next
  case (Suc n)
  then have lt: "i < length prices" by simp
  have n: "n = length prices - Suc i" using Suc.hyps(2) by simp
  have d: "drop i prices = prices ! i # drop (Suc i) prices"
    using lt by (simp add: Cons_nth_drop_Suc)
  have ih: "\<And>e. calculateEMA_loop prices m (Suc i) e =
     foldl (\<lambda>ema p. Num p * m + ema * (Num 1 - m)) e (drop (Suc i) prices)"
    using Suc.hyps(1)[OF n] lt by simp
  show ?case
    apply (subst calculateEMA_loop.simps)
    using lt by (simp add: ih d at_index_in_range)
qed

lemma calculateEMA_long:
  assumes "period \<le> length prices"
  shows "calculateEMA prices period = ema_spec prices period"
proof -
  have k: "Num 2 / (Num (real period) + Num 1) = Num (2 / (real period + 1))"
  proof -
    have "real period + 1 \<noteq> 0" by (simp add: add_nonneg_eq_0_iff)
    then show ?thesis by simp
  qed
  show ?thesis
    using assms
    by (simp add: calculateEMA_def ema_spec_def Let_def k reduce_sum_Num calculateEMA_loop_foldl)
qed

lemma ema_fold_real:
  "foldl (\<lambda>ema p. Num p * Num k + ema * (Num 1 - Num k)) (Num e) ps =
   Num (foldl (\<lambda>ema p. p * k + ema * (1 - k)) e ps)"
  by (induction ps arbitrary: e) (auto simp: minus_number_def)

lemma ema_spec_real:
  assumes "0 < period"
  shows "ema_spec prices period =
     Num (foldl (\<lambda>ema p. p * (2 / (real period + 1)) + ema * (1 - 2 / (real period + 1)))
            (sum_list (take period prices) / real period) (drop period prices))"
proof -
  have seed: "Num (sum_list (take period prices)) / Num (real period)
              = Num (sum_list (take period prices) / real period)"
    using assms by simp
  show ?thesis unfolding ema_spec_def Let_def seed ema_fold_real ..
qed


text \<open>
  Claim C4. For every price list with at least \<open>period\<close> entries \<^verbatim>\<open>calculateEMA\<close> returns
  the value obtained by seeding with the arithmetic mean of the first \<open>period\<close> prices and
  folding every later price \<open>p\<close> as \<open>p * k + ema * (1 - k)\<close> with \<open>k = 2 / (period + 1)\<close>;
  for a positive period this is a finite number, the fold on the reals. For every shorter
  list it returns the last price when the list is not empty and 0 when it is empty. (The
  empty list is shorter than the period exactly when the period is positive; for period 0
  it falls under the first case, where the mean of no prices is \<open>0 / 0\<close>.)
\<close>

theorem calculateEMA_formula:
  "(period \<le> length prices \<longrightarrow> calculateEMA prices period = ema_spec prices period) \<and>
   (0 < period \<and> period \<le> length prices \<longrightarrow>
      calculateEMA prices period =
        Num (foldl (\<lambda>ema p. p * (2 / (real period + 1)) + ema * (1 - 2 / (real period + 1)))
               (sum_list (take period prices) / real period) (drop period prices))) \<and>
   (length prices < period \<and> prices \<noteq> [] \<longrightarrow> calculateEMA prices period = Num (last prices)) \<and>
   (length prices < period \<and> prices = [] \<longrightarrow> calculateEMA prices period = Num 0)"
proof (intro conjI impI)
  assume a: "period \<le> length prices"
  show "calculateEMA prices period = ema_spec prices period"
    by (rule calculateEMA_long[OF a])
next
  assume "0 < period \<and> period \<le> length prices"
  then show "calculateEMA prices period =
        Num (foldl (\<lambda>ema p. p * (2 / (real period + 1)) + ema * (1 - 2 / (real period + 1)))
               (sum_list (take period prices) / real period) (drop period prices))"
    by (simp add: calculateEMA_long ema_spec_real)
next
  assume "length prices < period \<and> prices \<noteq> []"
  then show "calculateEMA prices period = Num (last prices)"
    by (simp add: calculateEMA_def at_index_last)
next
  assume "length prices < period \<and> prices = []"
  then show "calculateEMA prices period = Num 0"
    by (simp add: calculateEMA_def at_index_empty)
qed

text \<open>
  The prices 1, 3, 5 with period 2: the seed is 2, \<open>k = 2/3\<close>, and the result is
  \<open>5 * 2/3 + 2 * 1/3 = 4\<close>. The prices 4, 7 and no prices at all with period 3.
\<close>

theorem calculateEMA_formula_witness:
  "calculateEMA [1, 3, 5] 2 = Num 4 \<and> ema_spec [1, 3, 5] 2 = Num 4 \<and>
   calculateEMA [4, 7] 3 = Num 7 \<and> calculateEMA [] 3 = Num 0"
  using calculateEMA_formula[of 2 "[1, 3, 5]"] calculateEMA_formula[of 3 "[4, 7]"]
    calculateEMA_formula[of 3 "[]"]
  by (simp add: ema_spec_def minus_number_def)

subsection \<open>calculateVWAP\<close>

lemma calculateVWAP_loop_sums:
  assumes "length volumes = length closes" "length highs = length closes" "length lows = length closes"
  shows "i \<le> length closes \<Longrightarrow>
   calculateVWAP_loop closes volumes highs lows i (Num tv) (Num tvp) =
     (Num (tv + (\<Sum>k\<leftarrow>[i..<length closes]. volumes ! k)),
      Num (tvp + (\<Sum>k\<leftarrow>[i..<length closes]. (highs ! k + lows ! k + closes ! k) / 3 * volumes ! k)))"
proof (induction "length closes - i" arbitrary: i tv tvp)
  case 0
  then show ?case by (simp add: calculateVWAP_loop.simps)
next
  case (Suc n)
  then have lt: "i < length closes" by simp
  have n: "n = length closes - Suc i" using Suc.hyps(2) by simp
  have up: "[i..<length closes] = i # [Suc i..<length closes]"
    using lt by (simp add: upt_conv_Cons)
  have ih: "\<And>tv tvp. calculateVWAP_loop closes volumes highs lows (Suc i) (Num tv) (Num tvp) =
     (Num (tv + (\<Sum>k\<leftarrow>[Suc i..<length closes]. volumes ! k)),
      Num (tvp + (\<Sum>k\<leftarrow>[Suc i..<length closes]. (highs ! k + lows ! k + closes ! k) / 3 * volumes ! k)))"
    using Suc.hyps(1)[OF n] lt by simp
  have step: "calculateVWAP_loop closes volumes highs lows i (Num tv) (Num tvp) =
      calculateVWAP_loop closes volumes highs lows (Suc i) (Num (tv + volumes ! i))
        (Num (tvp + (highs ! i + lows ! i + closes ! i) / 3 * volumes ! i))"
    apply (subst calculateVWAP_loop.simps)
    using lt assms by (simp add: at_index_in_range Let_def)
  show ?case unfolding step ih up by (simp add: algebra_simps)
qed


text \<open>
  Claim C6. For arrays of closes, volumes, highs and lows of equal length: for empty input
  \<^verbatim>\<open>calculateVWAP\<close> returns 0; otherwise, when the total volume is positive it returns the
  sum of the typical prices \<open>(high[i] + low[i] + close[i]) / 3\<close> weighted by \<open>volume[i]\<close>,
  divided by the total volume, and when the total volume is zero it returns the last close.
\<close>

theorem calculateVWAP_formula:
  assumes "length volumes = length closes" "length highs = length closes" "length lows = length closes"
  shows "(closes = [] \<longrightarrow> calculateVWAP closes volumes highs lows = Num 0) \<and>
   (closes \<noteq> [] \<and> 0 < sum_list volumes \<longrightarrow>
      calculateVWAP closes volumes highs lows =
        Num ((\<Sum>i\<leftarrow>[0..<length closes]. (highs ! i + lows ! i + closes ! i) / 3 * volumes ! i)
             / sum_list volumes)) \<and>
   (closes \<noteq> [] \<and> sum_list volumes = 0 \<longrightarrow>
      calculateVWAP closes volumes highs lows = Num (last closes))"
proof -
  have tv: "(\<Sum>k\<leftarrow>[0..<length closes]. volumes ! k) = sum_list volumes"
    using sum_list_nth[of volumes] assms(1) by simp
  have loop: "calculateVWAP_loop closes volumes highs lows 0 (Num 0) (Num 0) =
     (Num (sum_list volumes),
      Num (\<Sum>k\<leftarrow>[0..<length closes]. (highs ! k + lows ! k + closes ! k) / 3 * volumes ! k))"
    using calculateVWAP_loop_sums[OF assms, of 0 0 0] tv by simp
  show ?thesis
    unfolding calculateVWAP_def loop
    by (auto simp: at_index_last)
qed

text \<open>
  Three samples with the typical prices 1, 3, 2 and the volumes 1, 1, 2: the result is
  \<open>(1 + 3 + 4) / 4 = 2\<close>. With no volume at all the last close 2 comes back.
\<close>

theorem calculateVWAP_formula_witness:
  "length [1, 1, 2 :: real] = length [1, 3, 2 :: real] \<and> length [2, 4, 3 :: real] = length [1, 3, 2 :: real] \<and>
   length [0, 2, 1 :: real] = length [1, 3, 2 :: real] \<and> [1, 3, 2 :: real] \<noteq> [] \<and>
   0 < sum_list [1, 1, 2 :: real] \<and>
   calculateVWAP [1, 3, 2] [1, 1, 2] [2, 4, 3] [0, 2, 1] = Num 2 \<and>
   sum_list [0, 0, 0 :: real] = 0 \<and>
   calculateVWAP [1, 3, 2] [0, 0, 0] [2, 4, 3] [0, 2, 1] = Num 2 \<and>
   calculateVWAP [] [] [] [] = Num 0"
proof -
  have u: "[0..<3] = [0, 1, 2]" by (simp add: upt_rec)
  show ?thesis
    using calculateVWAP_formula[of "[1, 1, 2]" "[1, 3, 2]" "[2, 4, 3]" "[0, 2, 1]"]
      calculateVWAP_formula[of "[0, 0, 0]" "[1, 3, 2]" "[2, 4, 3]" "[0, 2, 1]"]
      calculateVWAP_formula[of "[]" "[]" "[]" "[]"]
    by (simp add: u)
qed

subsection \<open>calculateVolatility\<close>

lemma calculateVolatility_loop_map:
  "1 \<le> i \<Longrightarrow> i \<le> length prices \<Longrightarrow>
   calculateVolatility_loop prices i rs =
     rs @ map (\<lambda>k. Math_log (Num (prices ! k) / Num (prices ! (k - 1)))) [i..<length prices]"
proof (induction "length prices - i" arbitrary: i rs)
  case 0
  then show ?case by (simp add: calculateVolatility_loop.simps)
next
  case (Suc n)
  then have lt: "i < length prices" by simp
  have n: "n = length prices - Suc i" using Suc.hyps(2) by simp
  have up: "[i..<length prices] = i # [Suc i..<length prices]"
    using lt by (simp add: upt_conv_Cons)
  have prev: "at_index prices (int i - 1) = Some (Num (prices ! (i - 1)))"
    using at_index_in_range[of "i - 1" prices] lt Suc.prems(1) by (simp add: of_nat_diff)
  have ih: "\<And>rs. calculateVolatility_loop prices (Suc i) rs =
     rs @ map (\<lambda>k. Math_log (Num (prices ! k) / Num (prices ! (k - 1)))) [Suc i..<length prices]"
    using Suc.hyps(1)[OF n] lt by simp
  have step: "calculateVolatility_loop prices i rs =
      calculateVolatility_loop prices (Suc i)
        (rs @ [Math_log (Num (prices ! i) / Num (prices ! (i - 1)))])"
    apply (subst calculateVolatility_loop.simps)
    using lt by (simp add: at_index_in_range prev)
  show ?case unfolding step ih up by simp
qed

lemma log_returns_map:
  "log_returns prices =
     map (\<lambda>k. Math_log (Num (prices ! k) / Num (prices ! (k - 1)))) [1..<length prices]"
proof (rule nth_equalityI)
  show "length (log_returns prices) =
        length (map (\<lambda>k. Math_log (Num (prices ! k) / Num (prices ! (k - 1)))) [1..<length prices])"
    by (simp add: log_returns_def)
next
  fix j assume "j < length (log_returns prices)"
  then have j: "Suc j < length prices" by (simp add: log_returns_def)
  then show "log_returns prices ! j =
     map (\<lambda>k. Math_log (Num (prices ! k) / Num (prices ! (k - 1)))) [1..<length prices] ! j"
    by (simp add: log_returns_def nth_tl)
qed

lemma calculateVolatility_returns:
  "2 \<le> length prices \<Longrightarrow> calculateVolatility_loop prices 1 [] = log_returns prices"
  using calculateVolatility_loop_map[of 1 prices "[]"] by (simp add: log_returns_map)

lemma calculateVolatility_long:
  assumes "2 \<le> length prices"
  shows "calculateVolatility prices days =
         population_stddev (log_returns prices) * Math_sqrt (Num 252) * Num 100"
proof -
  have "\<not> length prices < 2" using assms by simp
  then show ?thesis
    unfolding calculateVolatility_def calculateVolatility_returns[OF assms] population_stddev_def Let_def
    by (simp add: reduce_sum_number_sum foldl_add_number_sum number_add_zero_left Math_pow2_def)
qed

lemma number_sum_Num: "number_sum (map Num xs) = Num (sum_list xs)"
  by (induction xs) (auto simp: number_sum_def)

lemma population_stddev_real:
  assumes "xs \<noteq> []"
  shows "population_stddev (map Num xs) =
     Num (sqrt ((\<Sum>x\<leftarrow>xs. (x - sum_list xs / real (length xs))\<^sup>2) / real (length xs)))"
proof -
  let ?n = "real (length xs)"
  let ?m = "sum_list xs / ?n"
  have n: "?n \<noteq> 0" using assms by simp
  have mean: "number_sum (map Num xs) / Num ?n = Num ?m"
    using n by (simp add: number_sum_Num)
  have sq: "map (\<lambda>x. (x - Num ?m) * (x - Num ?m)) (map Num xs) = map Num (map (\<lambda>x. (x - ?m)\<^sup>2) xs)"
    by (simp add: minus_number_def power2_eq_square)
  have nonneg: "0 \<le> (\<Sum>x\<leftarrow>xs. (x - ?m)\<^sup>2) / ?n"
    by (intro divide_nonneg_nonneg sum_list_nonneg) auto
  have "population_stddev (map Num xs) =
        Math_sqrt (number_sum (map Num (map (\<lambda>x. (x - ?m)\<^sup>2) xs)) / Num ?n)"
    unfolding population_stddev_def Let_def length_map mean sq ..
  also have "\<dots> = Math_sqrt (Num ((\<Sum>x\<leftarrow>xs. (x - ?m)\<^sup>2) / ?n))"
    unfolding number_sum_Num using n by simp
  also have "\<dots> = Num (sqrt ((\<Sum>x\<leftarrow>xs. (x - ?m)\<^sup>2) / ?n))"
    using nonneg by simp
  finally show ?thesis .
qed

lemma log_returns_real:
  assumes "\<forall>p\<in>set prices. 0 < p"
  shows "log_returns prices = map Num (map2 (\<lambda>p q. ln (q / p)) prices (tl prices))"
proof -
  have "\<And>p q. (p, q) \<in> set (zip prices (tl prices)) \<Longrightarrow>
      Math_log (Num q / Num p) = Num (ln (q / p))"
  proof -
    fix p q assume "(p, q) \<in> set (zip prices (tl prices))"
    then have "p \<in> set prices" "q \<in> set (tl prices)" by (auto dest: set_zip_leftD set_zip_rightD)
    then have "0 < p" "0 < q" using assms by (auto dest: list.set_sel(2)[rotated])
    then show "Math_log (Num q / Num p) = Num (ln (q / p))" by simp
  qed
  then show ?thesis by (auto simp: log_returns_def)
qed


text \<open>
  Claim C5. For every price list with at least two entries \<^verbatim>\<open>calculateVolatility\<close> returns
  the population standard deviation of the log returns \<open>log (p[i] / p[i - 1])\<close>, multiplied
  by the square root of 252 and by 100; for positive prices this is the finite number that
  the same formula gives on the reals. For every shorter list it returns 0.
\<close>

theorem calculateVolatility_formula:
  "(2 \<le> length prices \<longrightarrow>
      calculateVolatility prices days =
        population_stddev (log_returns prices) * Math_sqrt (Num 252) * Num 100) \<and>
   (2 \<le> length prices \<and> (\<forall>p\<in>set prices. 0 < p) \<longrightarrow>
      calculateVolatility prices days =
        Num (real_stddev (real_log_returns prices) * sqrt 252 * 100)) \<and>
   (length prices < 2 \<longrightarrow> calculateVolatility prices days = Num 0)"
proof (intro conjI impI)
  assume a: "2 \<le> length prices"
  show "calculateVolatility prices days =
        population_stddev (log_returns prices) * Math_sqrt (Num 252) * Num 100"
    by (rule calculateVolatility_long[OF a])
next
  assume a: "2 \<le> length prices \<and> (\<forall>p\<in>set prices. 0 < p)"
  then have ne: "real_log_returns prices \<noteq> []"
    by (cases prices; cases "tl prices") (auto simp: real_log_returns_def)
  have lr: "log_returns prices = map Num (real_log_returns prices)"
    using a by (simp add: log_returns_real real_log_returns_def)
  show "calculateVolatility prices days = Num (real_stddev (real_log_returns prices) * sqrt 252 * 100)"
    using a by (simp add: calculateVolatility_long lr population_stddev_real[OF ne] real_stddev_def)
next
  assume "length prices < 2"
  then show "calculateVolatility prices days = Num 0" by (simp add: calculateVolatility_def)
qed

text \<open>
  The prices 1, 2, 1 have the log returns \<open>ln 2\<close> and \<open>- ln 2\<close>, of mean 0 and standard
  deviation \<open>ln 2\<close>.
\<close>

theorem calculateVolatility_formula_witness:
  "calculateVolatility [1, 2, 1] (Num 30) = Num (ln 2 * sqrt 252 * 100) \<and>
   real_log_returns [1, 2, 1] = [ln 2, - ln 2] \<and>
   calculateVolatility [3] (Num 30) = Num 0"
  using calculateVolatility_formula[of "[1, 2, 1]" "Num 30"] calculateVolatility_formula[of "[3]" "Num 30"]
  by (simp add: real_stddev_def real_log_returns_def ln_div population_stddev_def log_returns_def
      number_sum_def minus_number_def)

section \<open>Properties of the data access\<close>

subsection \<open>fetchStockData\<close>

lemma fetchStockData_try_eq:
  "fetchStockData_try fetch s =
     (case proxied_data (fetch (''/api/stock/'' @ s)) of
        Some data \<Rightarrow> Inr (Proxied data)
      | None \<Rightarrow> Inl (case fetch (''/api/stock/'' @ s) of NetworkError \<Rightarrow> Rejection
          | Response r \<Rightarrow> if \<not> ok r then (case body_text r of None \<Rightarrow> Rejection | Some t \<Rightarrow> Error)
                         else (case body_json r of None \<Rightarrow> Rejection
                               | Some d \<Rightarrow> if d = JNull then TypeError else Error)))"
proof (cases "fetch (''/api/stock/'' @ s)")
  case NetworkError
  then show ?thesis by (simp add: fetchStockData_try_def proxied_data_def)
next
  case (Response r)
  show ?thesis
  proof (cases "body_json r")
    case None
    then show ?thesis using Response
      by (simp add: fetchStockData_try_def proxied_data_def split: option.splits)
  next
    case (Some d)
    then show ?thesis using Response
      by (cases d) (simp_all add: fetchStockData_try_def proxied_data_def split: option.splits)
  qed
qed

lemma fetchStockData_cases:
  "fetchStockData up fetch s w =
     (case proxied_data (fetch (''/api/stock/'' @ s)) of
        Some data \<Rightarrow> (Inr (Proxied data), w)
      | None \<Rightarrow> (Inr (Mock (fst (generateFallbackStockData up s w))),
                 snd (generateFallbackStockData up s w)))"
  by (simp add: fetchStockData_def try_catch_def fetchStockData_try_eq split: option.splits prod.splits)

lemma generateFallbackStockData_draws:
  "generateFallbackStockData up s w =
     (mock_of up s (\<lambda>k. Num (draws w (cursor w + k))) (Num (now w)), w\<lparr>cursor := cursor w + 7\<rparr>)"
  by (simp add: generateFallbackStockData_def mock_of_def Let_def Math_random_def Date_now_def
      eval_nat_numeral split: prod.splits)

text \<open>
  Claim C1 says that a body carrying an error field makes \<^verbatim>\<open>fetchStockData\<close> resolve with
  the mock record. It does not when the field holds a value the language treats as false:
  the answer \<^verbatim>\<open>{"error": ""}\<close> with an ok status carries an error field and is returned as
  it is, and no random number is drawn.
\<close>

theorem fetchStockData_counterexample:
  "has_error_field (JObject [(''error'', JString [])]) \<and>
   fetchStockData ascii_upper empty_error ''aapl'' example_world =
     (Inr (Proxied (JObject [(''error'', JString [])])), example_world)"
  by (simp add: fetchStockData_cases proxied_data_def empty_error_def)

text \<open>
  Claim C1, amended. For every symbol, \<^verbatim>\<open>fetchStockData\<close> never rejects: it always resolves
  with a value. Whenever the request does not succeed fully (in particular when there is no
  connection, when the status is not ok, or when the body reports an error: its member
  \<^verbatim>\<open>error\<close> is a value that \<^verbatim>\<open>if (data.error)\<close> takes) the value is the mock record
  generated from the next seven values of the random generator and from the clock, field by
  field as \<open>mock_of\<close> says, and seven random values are consumed; the \<^verbatim>\<open>symbol\<close> of that
  record is the given symbol in upper case. Only when the request succeeds fully the value
  is the proxied data, and then no random value is consumed.
\<close>

theorem fetchStockData_never_rejects:
  "(\<exists>d. fst (fetchStockData up fetch s w) = Inr d) \<and>
   (proxied_data (fetch (''/api/stock/'' @ s)) = None \<longrightarrow>
      fetchStockData up fetch s w =
        (Inr (Mock (mock_of up s (\<lambda>k. Num (draws w (cursor w + k))) (Num (now w)))),
         w\<lparr>cursor := cursor w + 7\<rparr>)) \<and>
   symbol (mock_of up s (\<lambda>k. Num (draws w (cursor w + k))) (Num (now w))) = up s \<and>
   (\<forall>data. proxied_data (fetch (''/api/stock/'' @ s)) = Some data \<longrightarrow>
      fetchStockData up fetch s w = (Inr (Proxied data), w)) \<and>
   (fetch (''/api/stock/'' @ s) = NetworkError \<longrightarrow> proxied_data (fetch (''/api/stock/'' @ s)) = None) \<and>
   (\<forall>r. fetch (''/api/stock/'' @ s) = Response r \<and> \<not> ok r \<longrightarrow>
      proxied_data (fetch (''/api/stock/'' @ s)) = None) \<and>
   (\<forall>r data. fetch (''/api/stock/'' @ s) = Response r \<and> body_json r = Some data \<and> reports_error data \<longrightarrow>
      proxied_data (fetch (''/api/stock/'' @ s)) = None)"
  by (auto simp: fetchStockData_cases generateFallbackStockData_draws mock_of_def proxied_data_def
      split: option.splits)

text \<open>
  Without a connection and with the server's error answer the symbol \<^verbatim>\<open>aapl\<close> yields the
  mock record for \<^verbatim>\<open>AAPL\<close>: in a world whose next draws are 0 its price is 150 and its
  volume 1000000, in a world whose next draws are 1/2 its price is 300 and its volume
  6000000. With an answer that holds a price the symbol yields that answer.
\<close>

theorem fetchStockData_never_rejects_witness:
  "fetchStockData ascii_upper offline ''aapl'' example_world =
     (Inr (Mock \<lparr>symbol = ''AAPL'', price = Num 150, change = Num (- 7.5), changePercent = Num (- 5),
                 volume = Num 1000000, marketCap = Some (Num 100000000000), high = Num 150,
                 low = Num 150, open' = Num 155, previousClose = Num 157.5, vwap = None,
                 timestamp = Num 1700000000000\<rparr>),
      example_world\<lparr>cursor := 7\<rparr>) \<and>
   fetchStockData ascii_upper server_error ''aapl'' (example_world\<lparr>cursor := 7\<rparr>) =
     (Inr (Mock \<lparr>symbol = ''AAPL'', price = Num 300, change = Num 0, changePercent = Num 0,
                 volume = Num 6000000, marketCap = Some (Num 600000000000), high = Num 305,
                 low = Num 295, open' = Num 300, previousClose = Num 300, vwap = None,
                 timestamp = Num 1700000000000\<rparr>),
      example_world\<lparr>cursor := 14\<rparr>) \<and>
   fetchStockData ascii_upper price_100 ''aapl'' example_world
     = (Inr (Proxied (JObject [(''symbol'', JString ''AAPL''), (''price'', JNumber 100)])), example_world)"
proof -
  have o: "proxied_data (offline (''/api/stock/'' @ ''aapl'')) = None"
    by (simp add: proxied_data_def offline_def)
  have e: "proxied_data (server_error (''/api/stock/'' @ ''aapl'')) = None"
    by (simp add: proxied_data_def server_error_def)
  have p: "proxied_data (price_100 (''/api/stock/'' @ ''aapl''))
     = Some (JObject [(''symbol'', JString ''AAPL''), (''price'', JNumber 100)])"
    by (simp add: proxied_data_def price_100_def)
  have u: "ascii_upper ''aapl'' = ''AAPL''" by (simp add: ascii_upper_def)
  show ?thesis
    using fetchStockData_never_rejects[of ascii_upper offline "''aapl''" example_world]
      fetchStockData_never_rejects[of ascii_upper server_error "''aapl''" "example_world\<lparr>cursor := 7\<rparr>"]
      fetchStockData_never_rejects[of ascii_upper price_100 "''aapl''" example_world]
    unfolding o e p
    by (simp add: mock_of_def u example_world_def example_draws_def minus_number_def)
qed

subsection \<open>fetchTechnicalIndicators\<close>

lemma proxied_data_not_null: "proxied_data outcome = Some data \<Longrightarrow> data \<noteq> JNull"
  by (auto simp: proxied_data_def split: fetch_outcome.splits option.splits if_splits)

lemma price_of_defined:
  "stock = Mock d \<or> (stock = Proxied data \<and> data \<noteq> JNull) \<Longrightarrow> \<exists>v. price_of stock = Inr v"
  by (cases data) (auto simp: price_of_def split: option.splits)

lemma fetchStockData_price:
  "\<exists>stock w0 v. fetchStockData up fetch s w = (Inr stock, w0) \<and> price_of stock = Inr v"
proof (cases "proxied_data (fetch (''/api/stock/'' @ s))")
  case None
  then show ?thesis
    using price_of_defined[of "Mock (fst (generateFallbackStockData up s w))" _ JNull]
    by (simp add: fetchStockData_cases)
next
  case (Some data)
  then show ?thesis
    using price_of_defined[of "Proxied data" _ data] proxied_data_not_null[OF Some]
    by (simp add: fetchStockData_cases)
qed

lemma fetchTechnicalIndicators_from_price:
  assumes "fetchStockData up fetch s w = (Inr stock, w0)" "price_of stock = Inr v"
    "ToNumber parse print v = Inr p"
  shows "fetchTechnicalIndicators parse print up fetch s w =
     (Inr (indicators_of p (\<lambda>k. Num (draws w0 (cursor w0 + k)))), w0\<lparr>cursor := cursor w0 + 7\<rparr>)"
  by (simp add: fetchTechnicalIndicators_def try_catch_def fetchTechnicalIndicators_try_def assms
      times_value_def Math_random_def Let_def indicators_of_def eval_nat_numeral)

lemma fetchTechnicalIndicators_from_throw:
  assumes "fetchStockData up fetch s w = (Inr stock, w0)" "price_of stock = Inr v"
    "ToNumber parse print v = Inl e"
  shows "fetchTechnicalIndicators parse print up fetch s w =
     (Inr \<lparr>rsi = Num 50, ema9 = Num 200, ema20 = Num 195, adx = Num 25,
           vwap = Num 198, sma50 = Num 190, sma200 = Num 180\<rparr>, w0\<lparr>cursor := cursor w0 + 1\<rparr>)"
  by (simp add: fetchTechnicalIndicators_def try_catch_def fetchTechnicalIndicators_try_def assms
      times_value_def Math_random_def Let_def)

lemma price_100_stock:
  "fetchStockData ascii_upper price_100 ''AAPL'' w
     = (Inr (Proxied (JObject [(''symbol'', JString ''AAPL''), (''price'', JNumber 100)])), w)"
  by (simp add: fetchStockData_cases proxied_data_def price_100_def)

lemma price_100_price:
  "price_of (Proxied (JObject [(''symbol'', JString ''AAPL''), (''price'', JNumber 100)]))
     = Inr (JsonValue (JNumber 100))"
  by (simp add: price_of_def)

lemma price_100_number:
  "ToNumber parse_unknown print_unknown (JsonValue (JNumber 100)) = Inr (Num 100)"
  by simp

text \<open>
  Claim C2 says that two calls of \<^verbatim>\<open>fetchTechnicalIndicators\<close> on the same stock data
  return equal indicators. They do not: with a server that always answers with the price
  100, a first call returns an RSI of 45 and the call after it an RSI of 55, and the other
  six values differ as well, because each call multiplies the price by fresh random factors.
\<close>

theorem fetchTechnicalIndicators_counterexample:
  "fetchTechnicalIndicators parse_unknown print_unknown ascii_upper price_100 ''AAPL'' example_world =
     (Inr \<lparr>rsi = Num 45, ema9 = Num 99, ema20 = Num 98.5, adx = Num 15, vwap = Num 99.5,
           sma50 = Num 97, sma200 = Num 90\<rparr>, example_world\<lparr>cursor := 7\<rparr>) \<and>
   fetchTechnicalIndicators parse_unknown print_unknown ascii_upper price_100 ''AAPL''
       (example_world\<lparr>cursor := 7\<rparr>) =
     (Inr \<lparr>rsi = Num 55, ema9 = Num 100, ema20 = Num 100, adx = Num 25, vwap = Num 100,
           sma50 = Num 100, sma200 = Num 100\<rparr>, example_world\<lparr>cursor := 14\<rparr>) \<and>
   Num 45 \<noteq> Num 55"
  using fetchTechnicalIndicators_from_price[OF price_100_stock price_100_price price_100_number,
      of example_world]
    fetchTechnicalIndicators_from_price[OF price_100_stock price_100_price price_100_number,
      of "example_world\<lparr>cursor := 7\<rparr>"]
  by (simp add: indicators_of_def example_world_def example_draws_def)

text \<open>
  Claim C2, amended. \<^verbatim>\<open>fetchTechnicalIndicators\<close> always resolves. When the fetched price
  converts to a number, the result is a function of that number and of the seven values
  \<^verbatim>\<open>Math.random()\<close> returns after the stock data has been fetched:
  \<open>vwap = price * (0.995 + 0.01 r\<^sub>0)\<close>, \<open>ema9 = price * (0.99 + 0.02 r\<^sub>1)\<close>,
  \<open>ema20 = price * (0.985 + 0.03 r\<^sub>2)\<close>, \<open>sma50 = price * (0.97 + 0.06 r\<^sub>3)\<close>,
  \<open>sma200 = price * (0.9 + 0.2 r\<^sub>4)\<close>, \<open>rsi = 45 + 20 r\<^sub>5\<close> and \<open>adx = 15 + 20 r\<^sub>6\<close>;
  so two calls return equal indicators when the price and these seven draws are equal, and no
  array of OHLCV samples is involved. When the conversion of the price throws (the price of
  the body is an object with a member \<^verbatim>\<open>toString\<close>, or an array that contains one), the
  first multiplication throws after one random value has been drawn, and the result is the
  fixed record of the \<^verbatim>\<open>catch\<close> block: RSI 50, EMA9 200, EMA20 195, ADX 25, VWAP 198,
  SMA50 190, SMA200 180.
\<close>

theorem fetchTechnicalIndicators_formula:
  "\<exists>stock w0 v. fetchStockData up fetch s w = (Inr stock, w0) \<and> price_of stock = Inr v \<and>
     (case ToNumber parse print v of
        Inr p \<Rightarrow>
          fetchTechnicalIndicators parse print up fetch s w =
            (Inr (indicators_of p (\<lambda>k. Num (draws w0 (cursor w0 + k)))),
             w0\<lparr>cursor := cursor w0 + 7\<rparr>)
      | Inl e \<Rightarrow>
          fetchTechnicalIndicators parse print up fetch s w =
            (Inr \<lparr>rsi = Num 50, ema9 = Num 200, ema20 = Num 195, adx = Num 25,
                  vwap = Num 198, sma50 = Num 190, sma200 = Num 180\<rparr>,
             w0\<lparr>cursor := cursor w0 + 1\<rparr>))"
proof -
  obtain stock w0 v where a: "fetchStockData up fetch s w = (Inr stock, w0)"
    and b: "price_of stock = Inr v"
    using fetchStockData_price[of up fetch s w] by blast
  show ?thesis
  proof (cases "ToNumber parse print v")
    case (Inl e)
    then show ?thesis
      using a b fetchTechnicalIndicators_from_throw[OF a b Inl] by auto
  next
    case (Inr p)
    then show ?thesis
      using a b fetchTechnicalIndicators_from_price[OF a b Inr] by auto
  qed
qed

text \<open>
  Without a connection the price is the mock price 150 and the next seven draws are 1/2.
  With a price that is an object with a member \<^verbatim>\<open>toString\<close> the fixed record comes back,
  and one random value is gone.
\<close>

theorem fetchTechnicalIndicators_formula_witness:
  "fetchTechnicalIndicators parse_unknown print_unknown ascii_upper offline ''aapl'' example_world =
     (Inr \<lparr>rsi = Num 55, ema9 = Num 150, ema20 = Num 150, adx = Num 25, vwap = Num 150,
           sma50 = Num 150, sma200 = Num 150\<rparr>, example_world\<lparr>cursor := 14\<rparr>) \<and>
   ToNumber parse_unknown print_unknown
     (JsonValue (JObject [(''valueOf'', JNumber 1), (''toString'', JNumber 1)])) = Inl TypeError \<and>
   fetchTechnicalIndicators parse_unknown print_unknown ascii_upper price_object ''aapl'' example_world =
     (Inr \<lparr>rsi = Num 50, ema9 = Num 200, ema20 = Num 195, adx = Num 25, vwap = Num 198,
           sma50 = Num 190, sma200 = Num 180\<rparr>, example_world\<lparr>cursor := 1\<rparr>)"
proof -
  have s1: "fetchStockData ascii_upper offline ''aapl'' example_world =
     (Inr (Mock (mock_of ascii_upper ''aapl'' (\<lambda>k. Num (draws example_world (cursor example_world + k)))
                   (Num (now example_world)))),
      example_world\<lparr>cursor := 7\<rparr>)"
    by (simp add: fetchStockData_cases proxied_data_def offline_def generateFallbackStockData_draws
        example_world_def)
  have s2: "fetchStockData ascii_upper price_object ''aapl'' example_world =
     (Inr (Proxied (JObject [(''price'', JObject [(''valueOf'', JNumber 1), (''toString'', JNumber 1)])])),
      example_world)"
    by (simp add: fetchStockData_cases proxied_data_def price_object_def)
  obtain stock w0 v where a: "fetchStockData ascii_upper offline ''aapl'' example_world = (Inr stock, w0)"
    and b: "price_of stock = Inr v"
    and c: "(case ToNumber parse_unknown print_unknown v of
        Inr p \<Rightarrow>
          fetchTechnicalIndicators parse_unknown print_unknown ascii_upper offline ''aapl'' example_world =
            (Inr (indicators_of p (\<lambda>k. Num (draws w0 (cursor w0 + k)))),
             w0\<lparr>cursor := cursor w0 + 7\<rparr>)
      | Inl e \<Rightarrow>
          fetchTechnicalIndicators parse_unknown print_unknown ascii_upper offline ''aapl'' example_world =
            (Inr \<lparr>rsi = Num 50, ema9 = Num 200, ema20 = Num 195, adx = Num 25,
                  vwap = Num 198, sma50 = Num 190, sma200 = Num 180\<rparr>,
             w0\<lparr>cursor := cursor w0 + 1\<rparr>))"
    using fetchTechnicalIndicators_formula[of ascii_upper offline "''aapl''" example_world
        parse_unknown print_unknown]
    by blast
  have st: "stock = Mock (mock_of ascii_upper ''aapl''
                (\<lambda>k. Num (draws example_world (cursor example_world + k))) (Num (now example_world)))"
    and w0: "w0 = example_world\<lparr>cursor := 7\<rparr>"
    using a s1 by simp_all
  have v: "v = NumberValue (Num 150)"
    using b unfolding st by (simp add: price_of_def mock_of_def example_world_def example_draws_def)
  have first: "fetchTechnicalIndicators parse_unknown print_unknown ascii_upper offline ''aapl'' example_world =
     (Inr \<lparr>rsi = Num 55, ema9 = Num 150, ema20 = Num 150, adx = Num 25, vwap = Num 150,
           sma50 = Num 150, sma200 = Num 150\<rparr>, example_world\<lparr>cursor := 14\<rparr>)"
    using c unfolding v w0
    by (simp add: indicators_of_def example_world_def example_draws_def)
  obtain stock' w0' v' where a': "fetchStockData ascii_upper price_object ''aapl'' example_world = (Inr stock', w0')"
    and b': "price_of stock' = Inr v'"
    and c': "(case ToNumber parse_unknown print_unknown v' of
        Inr p \<Rightarrow>
          fetchTechnicalIndicators parse_unknown print_unknown ascii_upper price_object ''aapl'' example_world =
            (Inr (indicators_of p (\<lambda>k. Num (draws w0' (cursor w0' + k)))),
             w0'\<lparr>cursor := cursor w0' + 7\<rparr>)
      | Inl e \<Rightarrow>
          fetchTechnicalIndicators parse_unknown print_unknown ascii_upper price_object ''aapl'' example_world =
            (Inr \<lparr>rsi = Num 50, ema9 = Num 200, ema20 = Num 195, adx = Num 25,
                  vwap = Num 198, sma50 = Num 190, sma200 = Num 180\<rparr>,
             w0'\<lparr>cursor := cursor w0' + 1\<rparr>))"
    using fetchTechnicalIndicators_formula[of ascii_upper price_object "''aapl''" example_world
        parse_unknown print_unknown]
    by blast
  have st': "stock' = Proxied (JObject [(''price'', JObject [(''valueOf'', JNumber 1), (''toString'', JNumber 1)])])"
    and w0': "w0' = example_world"
    using a' s2 by simp_all
  have v': "v' = JsonValue (JObject [(''valueOf'', JNumber 1), (''toString'', JNumber 1)])"
    using b' unfolding st' by (simp add: price_of_def)
  have second: "fetchTechnicalIndicators parse_unknown print_unknown ascii_upper price_object ''aapl'' example_world =
     (Inr \<lparr>rsi = Num 50, ema9 = Num 200, ema20 = Num 195, adx = Num 25, vwap = Num 198,
           sma50 = Num 190, sma200 = Num 180\<rparr>, example_world\<lparr>cursor := 1\<rparr>)"
    using c' unfolding v' w0'
    by (simp add: example_world_def)
  show ?thesis using first second by simp
qed

section \<open>Properties of the recommendations\<close>

subsection \<open>generateOptionRecommendations\<close>

lemma number_thresholds_exclusive: "\<not> (Num 30 < x \<and> x < Num 20)" for x :: number
  by (cases x) auto

lemma pushed_recommendations_length:
  "length (pushed_recommendations toFixed volatilities averageMoves currentPrice) \<le> 4 \<and>
   1 \<le> length (pushed_recommendations toFixed volatilities averageMoves currentPrice)"
  using number_thresholds_exclusive[of "oneMonth volatilities"]
  by (auto simp: pushed_recommendations_def Let_def)

lemma pushed_recommendations_last:
  "OptionTradeRecommendation.strategy
     (last (pushed_recommendations toFixed volatilities averageMoves currentPrice)) = ''Cash-Secured Put''"
  by (simp add: pushed_recommendations_def Let_def)


text \<open>
  Claim C10. For every input \<^verbatim>\<open>generateOptionRecommendations\<close> returns between one and five
  recommendations, one of which is the Cash-Secured Put: at most four templates are pushed
  before the \<^verbatim>\<open>slice(0, 5)\<close>, because \<open>oneMonth > 30\<close> and \<open>oneMonth < 20\<close> exclude each
  other, so that the slice removes nothing.
\<close>

theorem generateOptionRecommendations_keeps_put:
  "1 \<le> length (generateOptionRecommendations toFixed volatilities averageMoves currentPrice) \<and>
   length (generateOptionRecommendations toFixed volatilities averageMoves currentPrice) \<le> 5 \<and>
   ''Cash-Secured Put'' \<in> OptionTradeRecommendation.strategy `
      set (generateOptionRecommendations toFixed volatilities averageMoves currentPrice) \<and>
   length (pushed_recommendations toFixed volatilities averageMoves currentPrice) \<le> 4 \<and>
   \<not> (Num 30 < oneMonth volatilities \<and> oneMonth volatilities < Num 20) \<and>
   generateOptionRecommendations toFixed volatilities averageMoves currentPrice =
     pushed_recommendations toFixed volatilities averageMoves currentPrice"
proof -
  let ?p = "pushed_recommendations toFixed volatilities averageMoves currentPrice"
  have len: "length ?p \<le> 4" "1 \<le> length ?p"
    using pushed_recommendations_length[of toFixed volatilities averageMoves currentPrice] by auto
  have eq: "generateOptionRecommendations toFixed volatilities averageMoves currentPrice = ?p"
    using len by (simp add: generateOptionRecommendations_def)
  have ne: "?p \<noteq> []" using len by auto
  have "last ?p \<in> set ?p" using ne by simp
  then have mem: "''Cash-Secured Put'' \<in> OptionTradeRecommendation.strategy ` set ?p"
    using pushed_recommendations_last[of toFixed volatilities averageMoves currentPrice]
    by (metis imageI)
  show ?thesis
    unfolding eq using len mem number_thresholds_exclusive[of "oneMonth volatilities"] by simp
qed

text \<open>A volatile month after a spike in the last week: four recommendations.\<close>

theorem generateOptionRecommendations_keeps_put_witness:
  "map OptionTradeRecommendation.strategy
     (generateOptionRecommendations fixed_unknown
        \<lparr>oneDay = Num 20, oneWeek = Num 50, oneMonth = Num 40, threeMonths = Num 30, sixMonths = Num 35\<rparr>
        \<lparr>oneDay = Num 2, oneWeek = Num 5, oneMonth = Num 4, threeMonths = Num 3, sixMonths = Num 3\<rparr>
        (Num 100))
   = [''Short Straddle'', ''Iron Condor'', ''Calendar Spread'', ''Cash-Secured Put'']"
  using generateOptionRecommendations_keeps_put[of fixed_unknown
      "\<lparr>oneDay = Num 20, oneWeek = Num 50, oneMonth = Num 40, threeMonths = Num 30, sixMonths = Num 35\<rparr>"
      "\<lparr>oneDay = Num 2, oneWeek = Num 5, oneMonth = Num 4, threeMonths = Num 3, sixMonths = Num 3\<rparr>"
      "Num 100"]
  by (simp add: pushed_recommendations_def)

subsection \<open>generateTradeRecommendations\<close>

text \<open>
  Claim C7. \<^verbatim>\<open>generateTradeRecommendations\<close> returns at most five trades, and the returned
  list consists of exactly the templates whose conditions hold, in this order: a Bull Call
  Spread if and only if \<open>rsi < 70\<close>, \<open>socialSentiment > 0\<close> and \<open>changePercent > 0\<close>; a Cash
  Secured Put if and only if \<open>rsi > 30\<close>, \<open>ivPercentile > 50\<close> and \<open>analystRating > 3\<close>; an
  Iron Condor if and only if \<open>adx < 25\<close> and \<open>ivPercentile > 60\<close>. Each carries its fixed
  \<^verbatim>\<open>pop\<close>, \<^verbatim>\<open>maxLoss\<close>, \<^verbatim>\<open>creditRatio\<close> and \<^verbatim>\<open>modelScore\<close>.
\<close>

theorem generateTradeRecommendations_templates:
  "length (fst (generateTradeRecommendations toString symbol' stockData optionsData fundamentalData
             alternativeData technicalData w)) \<le> 5 \<and>
   map template_numbers
     (fst (generateTradeRecommendations toString symbol' stockData optionsData fundamentalData
        alternativeData technicalData w)) =
     (if rsi technicalData < Num 70 \<and> Num 0 < socialSentiment alternativeData
         \<and> Num 0 < changePercent stockData
      then [(''Bull Call Spread'', Num 0.72, Num 250, Num 0.4, Num 0.85)] else []) @
     (if Num 30 < rsi technicalData \<and> Num 50 < ivPercentile optionsData
         \<and> Num 3 < analystRating alternativeData
      then [(''Cash Secured Put'', Num 0.68, Num 480, Num 0.35, Num 0.78)] else []) @
     (if adx technicalData < Num 25 \<and> Num 60 < ivPercentile optionsData
      then [(''Iron Condor'', Num 0.65, Num 350, Num 0.42, Num 0.71)] else [])"
  by (simp add: generateTradeRecommendations_def Let_def template_numbers_def)

text \<open>
  An input on which all three conditions hold, and the same input with an RSI that is not a
  number, on which only the Iron Condor remains.
\<close>

theorem generateTradeRecommendations_templates_witness:
  "map template_numbers
     (fst (generateTradeRecommendations digits_unknown ''AAPL'' example_stock example_options
        example_fundamentals example_alternative example_technicals example_world)) =
     [(''Bull Call Spread'', Num 0.72, Num 250, Num 0.4, Num 0.85),
      (''Cash Secured Put'', Num 0.68, Num 480, Num 0.35, Num 0.78),
      (''Iron Condor'', Num 0.65, Num 350, Num 0.42, Num 0.71)] \<and>
   map template_numbers
     (fst (generateTradeRecommendations digits_unknown ''AAPL'' example_stock example_options
        example_fundamentals example_alternative (example_technicals\<lparr>rsi := NaN\<rparr>) example_world)) =
     [(''Iron Condor'', Num 0.65, Num 350, Num 0.42, Num 0.71)]"
  using generateTradeRecommendations_templates[of digits_unknown "''AAPL''" example_stock example_options
      example_fundamentals example_alternative example_technicals example_world]
    generateTradeRecommendations_templates[of digits_unknown "''AAPL''" example_stock example_options
      example_fundamentals example_alternative "example_technicals\<lparr>rsi := NaN\<rparr>" example_world]
  by (simp add: example_stock_def example_options_def example_alternative_def example_technicals_def)

text \<open>
  Claim C8. \<^verbatim>\<open>generateTradeRecommendations\<close> is deterministic: two calls with equal symbol,
  stock data, options data, fundamental data, alternative data and technical indicators
  return equal lists, in whatever state the random generator and the clock are at each of
  the two calls; and a call consumes no random value and leaves the world as it is.
\<close>

theorem generateTradeRecommendations_deterministic:
  "symbol1 = symbol2 \<Longrightarrow> stockData1 = stockData2 \<Longrightarrow> optionsData1 = optionsData2 \<Longrightarrow>
   fundamentalData1 = fundamentalData2 \<Longrightarrow> alternativeData1 = alternativeData2 \<Longrightarrow>
   technicalData1 = technicalData2 \<Longrightarrow>
   fst (generateTradeRecommendations toString symbol1 stockData1 optionsData1 fundamentalData1
          alternativeData1 technicalData1 w1) =
   fst (generateTradeRecommendations toString symbol2 stockData2 optionsData2 fundamentalData2
          alternativeData2 technicalData2 w2) \<and>
   snd (generateTradeRecommendations toString symbol1 stockData1 optionsData1 fundamentalData1
          alternativeData1 technicalData1 w1) = w1"
  by (simp add: generateTradeRecommendations_def Let_def)

text \<open>
  Two calls on one input, the second one after seven values of the random generator have
  been consumed and at a later time: the lists are equal, and the first call has left the
  world as it was.
\<close>

theorem generateTradeRecommendations_deterministic_witness:
  "fst (generateTradeRecommendations digits_unknown ''AAPL'' example_stock example_options
          example_fundamentals example_alternative example_technicals example_world) =
   fst (generateTradeRecommendations digits_unknown ''AAPL'' example_stock example_options
          example_fundamentals example_alternative example_technicals
          (example_world\<lparr>cursor := 7, now := 1700000060000\<rparr>)) \<and>
   snd (generateTradeRecommendations digits_unknown ''AAPL'' example_stock example_options
          example_fundamentals example_alternative example_technicals example_world) = example_world"
  using generateTradeRecommendations_deterministic[of "''AAPL''" "''AAPL''" example_stock example_stock
      example_options example_options example_fundamentals example_fundamentals
      example_alternative example_alternative example_technicals example_technicals digits_unknown
      example_world "example_world\<lparr>cursor := 7, now := 1700000060000\<rparr>"]
  by simp

end
